theory Spec2Isabelle
  imports Complex_Main "HOL-Library.Sublist"
begin

section \<open>Python values, exceptions and sequences\<close>

text \<open>
  The driver script \<^verbatim>\<open>MDI_EF_Analysis.py\<close> is one sequential program: it parses its
  arguments, queries the engine, resolves indices, registers the probes, checks the
  trajectory header, and then loops over the frames. Every exception it can raise is a
  value of \<open>error\<close>; doubles are idealised as reals. What the script prints, the
  initialisation of the MDI library and the final MPI barrier are left out: the model
  starts with the parsed arguments and ends with the \<^verbatim>\<open>EXIT\<close> command.
\<close>

datatype error =
    Exception string  \<comment> \<open>\<^verbatim>\<open>raise Exception(msg)\<close>\<close>
  | SystemExit string  \<comment> \<open>\<^verbatim>\<open>parser.error(msg)\<close> prints the message and exits\<close>
  | ValueError
  | IndexError
  | TypeError
  | NameError
  | OSError

definition err_bind :: "error + 'a \<Rightarrow> ('a \<Rightarrow> error + 'b) \<Rightarrow> error + 'b" where
  "err_bind m f = (case m of Inl e \<Rightarrow> Inl e | Inr x \<Rightarrow> f x)"

text \<open>A list comprehension whose element expression may raise: the first failure wins.\<close>

fun comprehension :: "('a \<Rightarrow> error + 'b) \<Rightarrow> 'a list \<Rightarrow> error + 'b list" where
  "comprehension f [] = Inr []"
| "comprehension f (x # xs) =
     err_bind (f x) (\<lambda>y. err_bind (comprehension f xs) (\<lambda>ys. Inr (y # ys)))"

text \<open>
  \<^verbatim>\<open>xs[i]\<close> on a Python list or along the first axis of a numpy array: a negative index
  counts from the end, anything else out of range raises IndexError.
\<close>

definition wrap_index :: "nat \<Rightarrow> int \<Rightarrow> int" where
  "wrap_index len i = (if i < 0 then i + int len else i)"

definition getitem :: "'a list \<Rightarrow> int \<Rightarrow> error + 'a" where
  "getitem xs i =
     (if wrap_index (length xs) i < 0 \<or> int (length xs) \<le> wrap_index (length xs) i
      then Inl IndexError
      else Inr (xs ! nat (wrap_index (length xs) i)))"

text \<open>The slice \<^verbatim>\<open>xs[:n]\<close>; a negative bound counts from the end.\<close>

definition slice_to :: "int \<Rightarrow> 'a list \<Rightarrow> 'a list" where
  "slice_to n xs = (if 0 \<le> n then take (nat n) xs else take (nat (int (length xs) + n)) xs)"

text \<open>
  \<^verbatim>\<open>str.split()\<close> with no argument: the maximal runs of non-whitespace characters.
  Characters are bytes here; the whitespace set is Python's for code points below 256.
\<close>

definition isspace :: "char \<Rightarrow> bool" where
  "isspace c = ((of_char c :: nat) \<in> {9, 10, 11, 12, 13, 28, 29, 30, 31, 32, 133, 160})"

fun split_from :: "string \<Rightarrow> string \<Rightarrow> string list" where
  "split_from cur [] = (if cur = [] then [] else [cur])"
| "split_from cur (c # cs) =
     (if isspace c then (if cur = [] then split_from [] cs else cur # split_from [] cs)
      else split_from (cur @ [c]) cs)"

definition str_split :: "string \<Rightarrow> string list" where
  "str_split s = split_from [] s"

text \<open>\<^verbatim>\<open>f.readline()\<close> on the lines still unread: the empty string at end of file.\<close>

definition readline :: "string list \<Rightarrow> string \<times> string list" where
  "readline ls = (case ls of [] \<Rightarrow> ([], []) | l # rest \<Rightarrow> (l, rest))"

section \<open>numpy\<close>

text \<open>\<^verbatim>\<open>np.unique(a)\<close>: the sorted distinct values.\<close>

definition np_unique :: "int list \<Rightarrow> int list" where
  "np_unique a = sort (remdups a)"

text \<open>\<^verbatim>\<open>np.where(a == v)[0]\<close>: the 0-based positions holding \<open>v\<close>, ascending.\<close>

definition np_where_eq :: "int list \<Rightarrow> int \<Rightarrow> nat list" where
  "np_where_eq a v = filter (\<lambda>i. a ! i = v) [0..<length a]"

text \<open>\<^verbatim>\<open>rows.sum(axis=0)\<close> of an array of shape (k, 3): rows added component by component.\<close>

definition sum_axis0 :: "real list list \<Rightarrow> real list" where
  "sum_axis0 rs = foldl (\<lambda>acc r. map2 (+) acc r) [0, 0, 0] rs"

section \<open>The communicator\<close>

datatype dtype = MDI_INT | MDI_DOUBLE | MDI_CHAR

datatype payload = PInt int | PInts "int list" | PDoubles "real list list"

datatype event =
    Send_Command string
  | Send payload int dtype
  | Recv int dtype

text \<open>
  A computation that talks to the engine yields its result, or the exception that ended
  it, together with the communicator calls it made, in order.
\<close>

type_synonym 'a io = "(error + 'a) \<times> event list"

definition io_return :: "'a \<Rightarrow> 'a io" where
  "io_return x = (Inr x, [])"

definition io_raise :: "error \<Rightarrow> 'a io" where
  "io_raise e = (Inl e, [])"

definition io_lift :: "error + 'a \<Rightarrow> 'a io" where
  "io_lift r = (r, [])"

definition io_bind :: "'a io \<Rightarrow> ('a \<Rightarrow> 'b io) \<Rightarrow> 'b io" where
  "io_bind m f =
     (case fst m of
        Inl e \<Rightarrow> (Inl e, snd m)
      | Inr x \<Rightarrow> (fst (f x), snd m @ snd (f x)))"

definition MDI_Send_Command :: "string \<Rightarrow> unit io" where
  "MDI_Send_Command token = (Inr (), [Send_Command token])"

definition MDI_Send :: "payload \<Rightarrow> int \<Rightarrow> dtype \<Rightarrow> unit io" where
  "MDI_Send values count dt = (Inr (), [Send values count dt])"

text \<open>
  What an integer receive hands back: \<^verbatim>\<open>MDI_Recv\<close> returns the bare value for a count
  of 1 (the script relies on this for \<^verbatim>\<open>natoms_engine\<close> and \<^verbatim>\<open>npoles\<close>) and a list
  otherwise. A bare integer can be neither subscripted nor iterated over: both raise
  TypeError.
\<close>

datatype received = Scalar int | Array "int list"

definition subscript :: "received \<Rightarrow> int \<Rightarrow> error + int" where
  "subscript r i = (case r of Scalar v \<Rightarrow> Inl TypeError | Array xs \<Rightarrow> getitem xs i)"

definition iterate :: "received \<Rightarrow> error + int list" where
  "iterate r = (case r of Scalar v \<Rightarrow> Inl TypeError | Array xs \<Rightarrow> Inr xs)"

text \<open>
  \<^verbatim>\<open>np.array(r)\<close>: the array of a list, or the zero-dimensional array of a bare value,
  which \<^verbatim>\<open>np.unique\<close> and \<^verbatim>\<open>np.where\<close> (numpy 1.x, which the script's
  \<^verbatim>\<open>DataFrame.append\<close> implies) treat as its one entry.
\<close>

definition np_array :: "received \<Rightarrow> int list" where
  "np_array r = (case r of Scalar v \<Rightarrow> [v] | Array xs \<Rightarrow> xs)"

text \<open>\<open>reply\<close> is what the engine puts into the receive buffer.\<close>

definition MDI_Recv :: "int \<Rightarrow> dtype \<Rightarrow> 'a \<Rightarrow> 'a io" where
  "MDI_Recv count dt reply = (Inr reply, [Recv count dt])"

definition commands :: "event list \<Rightarrow> string list" where
  "commands t = concat (map (\<lambda>ev. case ev of Send_Command token \<Rightarrow> [token] | _ \<Rightarrow> []) t)"

section \<open>What the script runs against\<close>

text \<open>
  The engine answers a receive of \<open>n\<close> values with exactly \<open>n\<close> values, so each array
  reply is given by its entries. The field replies depend on the coordinates last sent.
\<close>

record engine =
  e_name :: string
  e_natoms :: int
  e_npoles :: int
  e_ipoles :: "nat \<Rightarrow> int"
  e_molecules :: "nat \<Rightarrow> int"
  e_residues :: "nat \<Rightarrow> int"
  e_dfield :: "real list list \<Rightarrow> nat \<Rightarrow> nat \<Rightarrow> nat \<Rightarrow> real"
  e_ufield :: "real list list \<Rightarrow> nat \<Rightarrow> nat \<Rightarrow> nat \<Rightarrow> real"

text \<open>
  The library functions and files the script uses are parameters: \<open>py_int\<close> is
  \<^verbatim>\<open>int(token)\<close> and \<open>to_numeric\<close> is \<^verbatim>\<open>pd.to_numeric\<close> on one cell (\<open>None\<close> where they
  raise ValueError), \<open>snapshot_lines\<close> is the snapshot file as \<^verbatim>\<open>open\<close> gives it, and
  \<open>read_csv chunksize skiprows\<close> is the chunk reader of \<^verbatim>\<open>pd.read_csv\<close> over the same
  file: the rows of each chunk, every row with its eight cells, or the exception that
  reading that chunk raises.
\<close>

record world =
  py_int :: "string \<Rightarrow> int option"
  to_numeric :: "string \<Rightarrow> real option"
  role_is_driver :: bool
  MDI_NAME_LENGTH :: int
  engine :: engine
  angstrom_to_bohr :: real
  snapshot_lines :: "error + string list"
  read_csv :: "int \<Rightarrow> int \<Rightarrow> error + (error + string list list) list"

record args =
  mdi :: string
  snap :: string
  probes_arg :: string
  byres :: bool
  bymol :: bool

section \<open>The script\<close>

subsection \<open>Handle user arguments\<close>

definition int_of :: "world \<Rightarrow> string \<Rightarrow> error + int" where
  "int_of w s = (case py_int w s of None \<Rightarrow> Inl ValueError | Some n \<Rightarrow> Inr n)"

text \<open>Lines 83 to 86: the probe list is parsed first, then the two flags are checked.\<close>

definition handle_user_arguments :: "args \<Rightarrow> world \<Rightarrow> error + int list" where
  "handle_user_arguments a w =
     err_bind (comprehension (int_of w) (str_split (probes_arg a))) (\<lambda>probes.
       if byres a \<and> bymol a
       then Inl (SystemExit ''--byres and --bymol cannot be used together. Please only use one.'')
       else Inr probes)"

text \<open>
  \<^verbatim>\<open>mdi_checks\<close>: with \<^verbatim>\<open>nengines = 1\<close> the loop body runs once, and the test for a second
  engine cannot fire because \<^verbatim>\<open>engine_comm\<close> is still the null communicator.
\<close>

definition mdi_checks :: "world \<Rightarrow> unit io" where
  "mdi_checks w =
     (if \<not> role_is_driver w then io_raise (Exception ''Must run driver_py.py as a DRIVER'')
      else
        io_bind (MDI_Send_Command ''<NAME'') (\<lambda>_.
        io_bind (MDI_Recv (MDI_NAME_LENGTH w) MDI_CHAR (e_name (engine w))) (\<lambda>name.
          if name = ''NO_EWALD'' then io_return ()
          else io_raise (Exception ''Unrecognized engine name.''))))"

subsection \<open>Get information from Tinker\<close>

record information =
  natoms_engine :: int
  npoles :: int
  ipoles :: received
  molecules :: "int list"
  residues :: "int list"

definition recv_ints :: "int \<Rightarrow> (nat \<Rightarrow> int) \<Rightarrow> received io" where
  "recv_ints count reply =
     MDI_Recv count MDI_INT
       (if count = 1 then Scalar (reply 0) else Array (map reply [0..<nat count]))"

definition get_information :: "world \<Rightarrow> information io" where
  "get_information w =
     io_bind (MDI_Send_Command ''<NATOMS'') (\<lambda>_.
     io_bind (MDI_Recv 1 MDI_INT (e_natoms (engine w))) (\<lambda>natoms_engine.
     io_bind (MDI_Send_Command ''<NPOLES'') (\<lambda>_.
     io_bind (MDI_Recv 1 MDI_INT (e_npoles (engine w))) (\<lambda>npoles.
     io_bind (MDI_Send_Command ''<IPOLES'') (\<lambda>_.
     io_bind (recv_ints natoms_engine (e_ipoles (engine w))) (\<lambda>ipoles.
     io_bind (MDI_Send_Command ''<MOLECULES'') (\<lambda>_.
     io_bind (recv_ints natoms_engine (e_molecules (engine w))) (\<lambda>molecules.
     io_bind (MDI_Send_Command ''<RESIDUES'') (\<lambda>_.
     io_bind (recv_ints natoms_engine (e_residues (engine w))) (\<lambda>residues.
       io_return \<lparr>natoms_engine = natoms_engine, npoles = npoles, ipoles = ipoles,
                  molecules = np_array molecules, residues = np_array residues\<rparr>))))))))))"

subsection \<open>Calculate indices\<close>

record indices =
  probe_pole_indices :: "int list"
  by_type :: string
  from_fragment :: "int list"
  interest_atoms :: "int list list"
  atoms_pole_numbers :: "int list list"

text \<open>Line 137: the pole index of each probe atom, read at \<^verbatim>\<open>atom_number - 1\<close>.\<close>

definition resolve_probes :: "received \<Rightarrow> int list \<Rightarrow> error + int list" where
  "resolve_probes ips probes = comprehension (\<lambda>atom_number. subscript ips (atom_number - 1)) probes"

text \<open>
  Lines 145 to 152 and 155 to 162: the two branches differ only in the membership array.
  For one id, the 1-based atom numbers carrying it and their pole numbers.
\<close>

definition fragment_atoms :: "int list \<Rightarrow> int \<Rightarrow> int list" where
  "fragment_atoms membership v = map (\<lambda>i. int i + 1) (np_where_eq membership v)"

definition fragment_poles :: "received \<Rightarrow> int list \<Rightarrow> error + int list" where
  "fragment_poles ips atoms = comprehension (\<lambda>atom_index. subscript ips (atom_index - 1)) atoms"

fun group_loop :: "received \<Rightarrow> int list \<Rightarrow> int list \<Rightarrow> int list list \<times> int list list
    \<Rightarrow> error + int list list \<times> int list list" where
  "group_loop ips membership [] acc = Inr acc"
| "group_loop ips membership (v # vs) (interest, poles) =
     err_bind (fragment_poles ips (fragment_atoms membership v)) (\<lambda>pole_numbers.
       group_loop ips membership vs
         (interest @ [fragment_atoms membership v], poles @ [pole_numbers]))"

definition calculate_indices :: "args \<Rightarrow> information \<Rightarrow> int list \<Rightarrow> error + indices" where
  "calculate_indices a info probes =
     err_bind (resolve_probes (ipoles info) probes) (\<lambda>ppi.
       if bymol a then
         err_bind (group_loop (ipoles info) (molecules info) (np_unique (molecules info)) ([], []))
           (\<lambda>(interest, poles).
             Inr \<lparr>probe_pole_indices = ppi, by_type = ''molecule'',
                  from_fragment = np_unique (molecules info),
                  interest_atoms = interest, atoms_pole_numbers = poles\<rparr>)
       else if byres a then
         err_bind (group_loop (ipoles info) (residues info) (np_unique (residues info)) ([], []))
           (\<lambda>(interest, poles).
             Inr \<lparr>probe_pole_indices = ppi, by_type = ''residue'',
                  from_fragment = np_unique (residues info),
                  interest_atoms = interest, atoms_pole_numbers = poles\<rparr>)
       else
         err_bind (iterate (ipoles info)) (\<lambda>entries.
           Inr \<lparr>probe_pole_indices = ppi, by_type = ''atom'',
                from_fragment = [1..natoms_engine info],
                interest_atoms = map (\<lambda>x. [x]) [1..natoms_engine info],
                atoms_pole_numbers = map (\<lambda>x. [x]) entries\<rparr>))"

subsection \<open>Send probe information to Tinker\<close>

definition send_probe_information :: "int list \<Rightarrow> indices \<Rightarrow> unit io" where
  "send_probe_information probes idx =
     io_bind (MDI_Send_Command ''>NPROBES'') (\<lambda>_.
     io_bind (MDI_Send (PInt (int (length probes))) 1 MDI_INT) (\<lambda>_.
     io_bind (MDI_Send_Command ''>PROBES'') (\<lambda>_.
       MDI_Send (PInts (probe_pole_indices idx)) (int (length probes)) MDI_INT)))"

subsection \<open>Engine and trajectory file compatibility check\<close>

text \<open>
  Lines 192 to 201: the first token of the first line is the atom count; the number of
  fields on the second line decides how many header lines each frame has.
\<close>

definition read_header :: "world \<Rightarrow> error + int \<times> int" where
  "read_header w =
     err_bind (snapshot_lines w) (\<lambda>lines.
       let (first_line, rest) = readline lines in
       err_bind (getitem (str_split first_line) 0) (\<lambda>token.
       err_bind (int_of w token) (\<lambda>natoms.
         let second_line = str_split (fst (readline rest));
             skip_line = (if length second_line = 6 then 2 else 1)
         in Inr (natoms, skip_line))))"

definition compatibility_check :: "world \<Rightarrow> int \<Rightarrow> error + int \<times> int" where
  "compatibility_check w natoms_eng =
     err_bind (read_header w) (\<lambda>(natoms, skip_line).
       if natoms \<noteq> natoms_eng
       then Inl (Exception ''Snapshot file and engine have inconsistent number of atoms'')
       else Inr (natoms, skip_line))"

subsection \<open>Read trajectory and do analysis\<close>

text \<open>
  A column label \<^verbatim>\<open>F'{by_type} {x}'\<close> is kept as the pair it is formatted from. A row
  is the dictionary handed to \<^verbatim>\<open>DataFrame.append\<close>; its keys are always columns of the
  frame it is appended to, so appending adds a row and no column.
\<close>

datatype column = Probe_Atom | Probe_Coordinates | Fragment string int

datatype cell = Int_cell int | Vec_cell "real list"

type_synonym row = "column \<rightharpoonup> cell"

record dataframe =
  df_columns :: "column list"
  df_rows :: "row list"

definition DataFrame :: "column list \<Rightarrow> dataframe" where
  "DataFrame cols = \<lparr>df_columns = cols, df_rows = []\<rparr>"

definition df_append :: "dataframe \<Rightarrow> row \<Rightarrow> dataframe" where
  "df_append df r = df\<lparr>df_rows := df_rows df @ [r]\<rparr>"

text \<open>
  Lines 221 and 222: the first \<open>natoms\<close> rows, their cells 2 to 4, made numeric and
  converted to bohr.
\<close>

definition numeric_cell :: "world \<Rightarrow> string \<Rightarrow> error + real" where
  "numeric_cell w c =
     (case to_numeric w c of None \<Rightarrow> Inl ValueError | Some x \<Rightarrow> Inr (x * angstrom_to_bohr w))"

definition coords_of :: "world \<Rightarrow> int \<Rightarrow> string list list \<Rightarrow> error + real list list" where
  "coords_of w natoms snapshot =
     comprehension (\<lambda>r. comprehension (numeric_cell w) (take 3 (drop 2 r))) (slice_to natoms snapshot)"

text \<open>
  \<^verbatim>\<open>np.zeros((len(probes), npoles, 3))\<close> raises on a negative dimension; the receive
  then overwrites every entry of the buffer with the engine's reply.
\<close>

definition np_zeros :: "nat \<Rightarrow> int \<Rightarrow> error + real list list list" where
  "np_zeros n m = (if m < 0 then Inl ValueError else Inr (replicate n (replicate (nat m) [0, 0, 0])))"

definition fill :: "(nat \<Rightarrow> nat \<Rightarrow> nat \<Rightarrow> real) \<Rightarrow> real list list list \<Rightarrow> real list list list" where
  "fill reply buf =
     map (\<lambda>p. map (\<lambda>s. map (\<lambda>k. reply p s k) [0..<length (buf ! p ! s)])
                 [0..<length (buf ! p)])
         [0..<length buf]"

text \<open>
  Lines 264 and 267: \<^verbatim>\<open>field[i, fragment-1].sum(axis=0)\<close>. A fragment without members
  would be the array \<^verbatim>\<open>np.array([])\<close> of line 152, whose dtype is float64, and numpy
  refuses a float array as an index.
\<close>

definition field_at_probe_due_to_fragment :: "real list list list \<Rightarrow> nat \<Rightarrow> int list \<Rightarrow> error + real list" where
  "field_at_probe_due_to_fragment field i fragment =
     (if fragment = [] then Inl IndexError
      else
        err_bind (getitem field (int i)) (\<lambda>field_i.
        err_bind (comprehension (\<lambda>s. getitem field_i (s - 1)) fragment) (\<lambda>picked.
          Inr (sum_axis0 picked))))"

text \<open>Lines 263 to 268, over \<^verbatim>\<open>enumerate(atoms_pole_numbers)\<close>.\<close>

fun fragment_loop :: "indices \<Rightarrow> real list list list \<Rightarrow> real list list list \<Rightarrow> nat
    \<Rightarrow> (nat \<times> int list) list \<Rightarrow> row \<times> row \<Rightarrow> error + row \<times> row" where
  "fragment_loop idx dfield ufield i [] acc = Inr acc"
| "fragment_loop idx dfield ufield i ((fragment_index, fragment) # rest) (to_add_dfield, to_add_ufield) =
     err_bind (field_at_probe_due_to_fragment dfield i fragment) (\<lambda>dfield_at_probe.
     err_bind (getitem (from_fragment idx) (int fragment_index)) (\<lambda>label.
     err_bind (field_at_probe_due_to_fragment ufield i fragment) (\<lambda>ufield_at_probe.
       fragment_loop idx dfield ufield i rest
         (to_add_dfield(Fragment (by_type idx) label \<mapsto> Vec_cell dfield_at_probe),
          to_add_ufield(Fragment (by_type idx) label \<mapsto> Vec_cell ufield_at_probe)))))"

text \<open>Lines 258 to 268: the two dictionaries built for probe number \<open>i\<close>.\<close>

definition rows_to_add :: "int list \<Rightarrow> real list list \<Rightarrow> indices \<Rightarrow> real list list list
    \<Rightarrow> real list list list \<Rightarrow> nat \<Rightarrow> error + row \<times> row" where
  "rows_to_add probes snapshot_coords idx dfield ufield i =
     err_bind (getitem probes (int i)) (\<lambda>probe.
     err_bind (getitem snapshot_coords probe) (\<lambda>coordinates.
       fragment_loop idx dfield ufield i (enumerate 0 (atoms_pole_numbers idx))
         ([Probe_Atom \<mapsto> Int_cell probe, Probe_Coordinates \<mapsto> Vec_cell coordinates],
          [Probe_Atom \<mapsto> Int_cell probe, Probe_Coordinates \<mapsto> Vec_cell coordinates])))"

text \<open>Lines 257 to 271, over \<^verbatim>\<open>range(len(probes))\<close>.\<close>

fun probe_loop :: "int list \<Rightarrow> real list list \<Rightarrow> indices \<Rightarrow> real list list list
    \<Rightarrow> real list list list \<Rightarrow> nat list \<Rightarrow> dataframe \<times> dataframe \<Rightarrow> error + dataframe \<times> dataframe" where
  "probe_loop probes snapshot_coords idx dfield ufield [] dfs = Inr dfs"
| "probe_loop probes snapshot_coords idx dfield ufield (i # rest) (dfield_df, ufield_df) =
     err_bind (rows_to_add probes snapshot_coords idx dfield ufield i)
       (\<lambda>(to_add_dfield, to_add_ufield).
         probe_loop probes snapshot_coords idx dfield ufield rest
           (df_append dfield_df to_add_dfield, df_append ufield_df to_add_ufield))"

text \<open>The body of the frame loop, lines 221 to 271, for one chunk.\<close>

definition analyse_frame :: "world \<Rightarrow> int list \<Rightarrow> int \<Rightarrow> int \<Rightarrow> indices \<Rightarrow> string list list
    \<Rightarrow> (dataframe \<times> dataframe) io" where
  "analyse_frame w probes natoms npols idx snapshot =
     io_bind (io_lift (coords_of w natoms snapshot)) (\<lambda>snapshot_coords.
     io_bind (MDI_Send_Command ''>COORDS'') (\<lambda>_.
     io_bind (MDI_Send (PDoubles snapshot_coords) (3 * natoms) MDI_DOUBLE) (\<lambda>_.
     io_bind (io_lift (np_zeros (length probes) npols)) (\<lambda>dbuf.
     io_bind (MDI_Send_Command ''<DFIELD'') (\<lambda>_.
     io_bind (MDI_Recv (3 * npols * int (length probes)) MDI_DOUBLE
                (fill (e_dfield (engine w) snapshot_coords) dbuf)) (\<lambda>dfield.
     io_bind (io_lift (np_zeros (length probes) npols)) (\<lambda>ubuf.
     io_bind (MDI_Send_Command ''<UFIELD'') (\<lambda>_.
     io_bind (MDI_Recv (3 * npols * int (length probes)) MDI_DOUBLE
                (fill (e_ufield (engine w) snapshot_coords) ubuf)) (\<lambda>ufield.
       let cols = [Probe_Atom, Probe_Coordinates] @ map (Fragment (by_type idx)) (from_fragment idx)
       in io_lift (probe_loop probes snapshot_coords idx dfield ufield [0..<length probes]
                     (DataFrame cols, DataFrame cols)))))))))))"

text \<open>
  The frame loop, lines 214 to 271. The two table variables are unbound until the first
  iteration binds them, and every iteration binds them anew.
\<close>

fun read_trajectory :: "world \<Rightarrow> int list \<Rightarrow> int \<Rightarrow> int \<Rightarrow> indices
    \<Rightarrow> (error + string list list) list \<Rightarrow> (dataframe \<times> dataframe) option
    \<Rightarrow> (dataframe \<times> dataframe) option io" where
  "read_trajectory w probes natoms npols idx [] tables = io_return tables"
| "read_trajectory w probes natoms npols idx (chunk # rest) tables =
     io_bind (io_lift chunk) (\<lambda>snapshot.
     io_bind (analyse_frame w probes natoms npols idx snapshot) (\<lambda>new_tables.
       read_trajectory w probes natoms npols idx rest (Some new_tables)))"

subsection \<open>The whole run\<close>

record written =
  dfield_csv :: dataframe
  ufield_csv :: dataframe

text \<open>Lines 273 and 274: writing a table whose variable was never bound raises NameError.\<close>

definition to_csv :: "(dataframe \<times> dataframe) option \<Rightarrow> error + written" where
  "to_csv tables =
     (case tables of
        None \<Rightarrow> Inl NameError
      | Some (dfield_df, ufield_df) \<Rightarrow> Inr \<lparr>dfield_csv = dfield_df, ufield_csv = ufield_df\<rparr>)"

definition main :: "args \<Rightarrow> world \<Rightarrow> written io" where
  "main a w =
     io_bind (io_lift (handle_user_arguments a w)) (\<lambda>probes.
     io_bind (mdi_checks w) (\<lambda>_.
     io_bind (get_information w) (\<lambda>info.
     io_bind (io_lift (calculate_indices a info probes)) (\<lambda>idx.
     io_bind (send_probe_information probes idx) (\<lambda>_.
     io_bind (io_lift (compatibility_check w (natoms_engine info))) (\<lambda>(natoms, skip_line).
     io_bind (io_lift (read_csv w (natoms + skip_line) skip_line)) (\<lambda>chunks.
     io_bind (read_trajectory w probes natoms (npoles info) idx chunks None) (\<lambda>tables.
     io_bind (io_lift (to_csv tables)) (\<lambda>out.
     io_bind (MDI_Send_Command ''EXIT'') (\<lambda>_.
       io_return out))))))))))"

section \<open>The required command order\<close>

text \<open>
  The order the engine expects: the identity and topology queries and the probe
  registration once, then three commands per frame, then the exit command.
\<close>

definition setup_commands :: "string list" where
  "setup_commands =
     [''<NAME'', ''<NATOMS'', ''<NPOLES'', ''<IPOLES'', ''<MOLECULES'', ''<RESIDUES'',
      ''>NPROBES'', ''>PROBES'']"

definition frame_commands :: "string list" where
  "frame_commands = [''>COORDS'', ''<DFIELD'', ''<UFIELD'']"

definition protocol :: "nat \<Rightarrow> string list" where
  "protocol n = setup_commands @ concat (replicate n frame_commands) @ [''EXIT'']"

text \<open>
  The same order with what is sent and received: the queries, the registration of the
  probes (their count, then the pole index the engine reported for each probe atom, read
  at \<^verbatim>\<open>atom_number - 1\<close> as Python does), and the exchange for one frame.
\<close>

definition query_events :: "world \<Rightarrow> event list" where
  "query_events w =
     [Send_Command ''<NAME'', Recv (MDI_NAME_LENGTH w) MDI_CHAR,
      Send_Command ''<NATOMS'', Recv 1 MDI_INT, Send_Command ''<NPOLES'', Recv 1 MDI_INT,
      Send_Command ''<IPOLES'', Recv (e_natoms (engine w)) MDI_INT,
      Send_Command ''<MOLECULES'', Recv (e_natoms (engine w)) MDI_INT,
      Send_Command ''<RESIDUES'', Recv (e_natoms (engine w)) MDI_INT]"

definition reported_pole :: "world \<Rightarrow> int \<Rightarrow> int" where
  "reported_pole w atom_number =
     e_ipoles (engine w) (nat (wrap_index (nat (e_natoms (engine w))) (atom_number - 1)))"

definition registration_events :: "world \<Rightarrow> int list \<Rightarrow> event list" where
  "registration_events w probes =
     [Send_Command ''>NPROBES'', Send (PInt (int (length probes))) 1 MDI_INT,
      Send_Command ''>PROBES'',
      Send (PInts (map (reported_pole w) probes)) (int (length probes)) MDI_INT]"

definition frame_events :: "world \<Rightarrow> nat \<Rightarrow> int \<Rightarrow> real list list \<Rightarrow> event list" where
  "frame_events w nprobes natoms snapshot_coords =
     [Send_Command ''>COORDS'', Send (PDoubles snapshot_coords) (3 * natoms) MDI_DOUBLE,
      Send_Command ''<DFIELD'', Recv (3 * e_npoles (engine w) * int nprobes) MDI_DOUBLE,
      Send_Command ''<UFIELD'', Recv (3 * e_npoles (engine w) * int nprobes) MDI_DOUBLE]"

text \<open>A chunk the reader delivered, and the coordinates the loop body takes from it.\<close>

definition chunk_coords :: "world \<Rightarrow> int \<Rightarrow> error + string list list \<Rightarrow> real list list \<Rightarrow> bool" where
  "chunk_coords w natoms chunk snapshot_coords \<longleftrightarrow>
     (case chunk of Inl e \<Rightarrow> False | Inr snapshot \<Rightarrow> coords_of w natoms snapshot = Inr snapshot_coords)"

text \<open>The number of chunks the reader yields for the header of the snapshot file.\<close>

definition frame_count :: "world \<Rightarrow> nat" where
  "frame_count w =
     (case compatibility_check w (e_natoms (engine w)) of
        Inl e \<Rightarrow> 0
      | Inr (natoms, skip_line) \<Rightarrow>
          (case read_csv w (natoms + skip_line) skip_line of
             Inl e \<Rightarrow> 0
           | Inr chunks \<Rightarrow> length chunks))"

text \<open>
  A computation obeys a command list when the commands it sends are an initial part of
  the list, and the whole list once it returns.
\<close>

definition obeys :: "'a io \<Rightarrow> string list \<Rightarrow> bool" where
  "obeys m cs \<longleftrightarrow>
     prefix (commands (snd m)) cs \<and> (\<forall>x. fst m = Inr x \<longrightarrow> commands (snd m) = cs)"

section \<open>A small run\<close>

text \<open>
  A world to run the script in: two atoms with pole indices 1 and 2, in molecules 7 and 3,
  both in residue 5, and a trajectory of two frames without box line. Integers are read
  in decimal; the D-field reply is the site number plus the x coordinate of atom 1, the
  U-field reply is the negated axis number.
\<close>

fun digits_value :: "int \<Rightarrow> string \<Rightarrow> int option" where
  "digits_value acc [] = Some acc"
| "digits_value acc (c # cs) =
     (if 48 \<le> (of_char c :: nat) \<and> (of_char c :: nat) \<le> 57
      then digits_value (10 * acc + (int (of_char c) - 48)) cs else None)"

definition decimal :: "string \<Rightarrow> int option" where
  "decimal s =
     (case s of
        [] \<Rightarrow> None
      | c # cs \<Rightarrow> if c = CHR ''-'' then (if cs = [] then None else map_option uminus (digits_value 0 cs))
                 else digits_value 0 s)"

definition small_engine :: engine where
  "small_engine =
     \<lparr>e_name = ''NO_EWALD'', e_natoms = 2, e_npoles = 2,
      e_ipoles = (\<lambda>k. int k + 1),
      e_molecules = (\<lambda>k. if k = 0 then 7 else 3),
      e_residues = (\<lambda>k. 5),
      e_dfield = (\<lambda>coords p s k. real s + 1 + hd (hd coords)),
      e_ufield = (\<lambda>coords p s k. - real k)\<rparr>"

definition small_frame1 :: "string list list" where
  "small_frame1 = [[''1'', ''O'', ''1'', ''2'', ''3'', ''1'', ''2'', []],
           [''2'', ''H'', ''4'', ''5'', ''6'', ''2'', ''1'', []],
           [''2'', ''water'', [], [], [], [], [], []]]"

definition small_frame2 :: "string list list" where
  "small_frame2 = [[''1'', ''O'', ''7'', ''8'', ''9'', ''1'', ''2'', []],
           [''2'', ''H'', ''10'', ''11'', ''12'', ''2'', ''1'', []]]"

definition small_frames :: "(error + string list list) list" where
  "small_frames = [Inr small_frame1, Inr small_frame2]"

definition small_world :: world where
  "small_world =
     \<lparr>py_int = decimal,
      to_numeric = (\<lambda>c. map_option real_of_int (decimal c)),
      role_is_driver = True,
      MDI_NAME_LENGTH = 12,
      engine = small_engine,
      angstrom_to_bohr = 2,
      snapshot_lines = Inr [''2 water'', ''1 O 1 2 3 1 2'', ''2 H 4 5 6 2 1'',
                            ''2 water'', ''1 O 7 8 9 1 2'', ''2 H 10 11 12 2 1''],
      read_csv = (\<lambda>chunksize skiprows. Inr small_frames)\<rparr>"

definition small_args :: "string \<Rightarrow> bool \<Rightarrow> bool \<Rightarrow> args" where
  "small_args p r m = \<lparr>mdi = ''-role DRIVER -name driver -method TCP -port 8021'',
                       snap = ''water.arc'', probes_arg = p, byres = r, bymol = m\<rparr>"

definition small_info :: information where
  "small_info =
     \<lparr>natoms_engine = 2, npoles = 2, ipoles = Array [1, 2], molecules = [7, 3], residues = [5, 5]\<rparr>"

definition small_atom_indices :: indices where
  "small_atom_indices =
     \<lparr>probe_pole_indices = [1], by_type = ''atom'', from_fragment = [1, 2],
      interest_atoms = [[1], [2]], atoms_pole_numbers = [[1], [2]]\<rparr>"


definition small_columns :: "column list" where
  "small_columns = [Probe_Atom, Probe_Coordinates, Fragment ''atom'' 1, Fragment ''atom'' 2]"

definition small_written :: written where
  "small_written =
     \<lparr>dfield_csv =
        \<lparr>df_columns = small_columns,
         df_rows = [[Probe_Atom \<mapsto> Int_cell 1, Probe_Coordinates \<mapsto> Vec_cell [20, 22, 24],
                     Fragment ''atom'' 1 \<mapsto> Vec_cell [15, 15, 15],
                     Fragment ''atom'' 2 \<mapsto> Vec_cell [16, 16, 16]]]\<rparr>,
      ufield_csv =
        \<lparr>df_columns = small_columns,
         df_rows = [[Probe_Atom \<mapsto> Int_cell 1, Probe_Coordinates \<mapsto> Vec_cell [20, 22, 24],
                     Fragment ''atom'' 1 \<mapsto> Vec_cell [0, - 1, - 2],
                     Fragment ''atom'' 2 \<mapsto> Vec_cell [0, - 1, - 2]]]\<rparr>\<rparr>"

definition small_trace :: "event list" where
  "small_trace =
     [Send_Command ''<NAME'', Recv 12 MDI_CHAR, Send_Command ''<NATOMS'', Recv 1 MDI_INT,
      Send_Command ''<NPOLES'', Recv 1 MDI_INT, Send_Command ''<IPOLES'', Recv 2 MDI_INT,
      Send_Command ''<MOLECULES'', Recv 2 MDI_INT, Send_Command ''<RESIDUES'', Recv 2 MDI_INT,
      Send_Command ''>NPROBES'', Send (PInt 1) 1 MDI_INT,
      Send_Command ''>PROBES'', Send (PInts [1]) 1 MDI_INT,
      Send_Command ''>COORDS'', Send (PDoubles [[2, 4, 6], [8, 10, 12]]) 6 MDI_DOUBLE,
      Send_Command ''<DFIELD'', Recv 6 MDI_DOUBLE, Send_Command ''<UFIELD'', Recv 6 MDI_DOUBLE,
      Send_Command ''>COORDS'', Send (PDoubles [[14, 16, 18], [20, 22, 24]]) 6 MDI_DOUBLE,
      Send_Command ''<DFIELD'', Recv 6 MDI_DOUBLE, Send_Command ''<UFIELD'', Recv 6 MDI_DOUBLE,
      Send_Command ''EXIT'']"

definition boxed_world :: world where
  "boxed_world =
     small_world\<lparr>snapshot_lines :=
       Inr [''2 water'', ''10.0 10.0 10.0 90.0 90.0 90.0'', ''1 O 1 2 3 1 2'', ''2 H 4 5 6 2 1'']\<rparr>"

definition mismatch_world :: world where
  "mismatch_world =
     small_world\<lparr>snapshot_lines := Inr [''3 water'', ''1 O 1 2 3 1 2'', ''2 H 4 5 6 2 1'']\<rparr>"

text \<open>
  The same engine reporting pole index 0 for both atoms (no multipole site), the same
  engine with a single atom, and the resolver's results and the tables of the last frame
  in these runs.
\<close>

definition siteless_world :: world where
  "siteless_world = small_world\<lparr>engine := small_engine\<lparr>e_ipoles := (\<lambda>k. 0)\<rparr>\<rparr>"

definition single_atom_world :: world where
  "single_atom_world = small_world\<lparr>engine := small_engine\<lparr>e_natoms := 1\<rparr>\<rparr>"

definition siteless_info :: information where
  "siteless_info =
     \<lparr>natoms_engine = 2, npoles = 2, ipoles = Array [0, 0], molecules = [7, 3], residues = [5, 5]\<rparr>"

definition siteless_atom_indices :: indices where
  "siteless_atom_indices =
     \<lparr>probe_pole_indices = [0], by_type = ''atom'', from_fragment = [1, 2],
      interest_atoms = [[1], [2]], atoms_pole_numbers = [[0], [0]]\<rparr>"

definition siteless_molecule_indices :: indices where
  "siteless_molecule_indices =
     \<lparr>probe_pole_indices = [0], by_type = ''molecule'', from_fragment = [3, 7],
      interest_atoms = [[2], [1]], atoms_pole_numbers = [[0], [0]]\<rparr>"

definition siteless_tables :: "dataframe \<times> dataframe" where
  "siteless_tables =
     (\<lparr>df_columns = small_columns,
       df_rows = [[Probe_Atom \<mapsto> Int_cell 1, Probe_Coordinates \<mapsto> Vec_cell [20, 22, 24],
                   Fragment ''atom'' 1 \<mapsto> Vec_cell [16, 16, 16],
                   Fragment ''atom'' 2 \<mapsto> Vec_cell [16, 16, 16]]]\<rparr>,
      \<lparr>df_columns = small_columns,
       df_rows = [[Probe_Atom \<mapsto> Int_cell 1, Probe_Coordinates \<mapsto> Vec_cell [20, 22, 24],
                   Fragment ''atom'' 1 \<mapsto> Vec_cell [0, - 1, - 2],
                   Fragment ''atom'' 2 \<mapsto> Vec_cell [0, - 1, - 2]]]\<rparr>)"

definition small_residue_indices :: indices where
  "small_residue_indices =
     \<lparr>probe_pole_indices = [1], by_type = ''residue'', from_fragment = [5],
      interest_atoms = [[1, 2]], atoms_pole_numbers = [[1, 2]]\<rparr>"

definition small_residue_tables :: "dataframe \<times> dataframe" where
  "small_residue_tables =
     (\<lparr>df_columns = [Probe_Atom, Probe_Coordinates, Fragment ''residue'' 5],
       df_rows = [[Probe_Atom \<mapsto> Int_cell 1, Probe_Coordinates \<mapsto> Vec_cell [20, 22, 24],
                   Fragment ''residue'' 5 \<mapsto> Vec_cell [31, 31, 31]]]\<rparr>,
      \<lparr>df_columns = [Probe_Atom, Probe_Coordinates, Fragment ''residue'' 5],
       df_rows = [[Probe_Atom \<mapsto> Int_cell 1, Probe_Coordinates \<mapsto> Vec_cell [20, 22, 24],
                   Fragment ''residue'' 5 \<mapsto> Vec_cell [0, - 2, - 4]]]\<rparr>)"

section \<open>Basic facts\<close>

lemma err_bind_Inl [simp]: "err_bind (Inl e) f = Inl e"
  by (simp add: err_bind_def)

lemma err_bind_Inr [simp]: "err_bind (Inr x) f = f x"
  by (simp add: err_bind_def)

lemma err_bind_eq_Inr: "err_bind m f = Inr y \<longleftrightarrow> (\<exists>x. m = Inr x \<and> f x = Inr y)"
  by (cases m) simp_all

lemma fst_io_lift [simp]: "fst (io_lift r) = r"
  by (simp add: io_lift_def)

lemma snd_io_lift [simp]: "snd (io_lift r) = []"
  by (simp add: io_lift_def)

lemma fst_io_bind_eq_Inr: "fst (io_bind m f) = Inr y \<longleftrightarrow> (\<exists>x. fst m = Inr x \<and> fst (f x) = Inr y)"
  by (cases "fst m") (simp_all add: io_bind_def)

lemma io_bind_pair_Inr [simp]: "io_bind (Inr x, t) f = (fst (f x), t @ snd (f x))"
  by (simp add: io_bind_def)

lemma io_bind_pair_Inl [simp]: "io_bind (Inl e, t) f = (Inl e, t)"
  by (simp add: io_bind_def)

lemma comprehension_eq_Inr:
  "comprehension f xs = Inr ys \<longleftrightarrow> length ys = length xs \<and> (\<forall>k < length xs. f (xs ! k) = Inr (ys ! k))"
proof (induction xs arbitrary: ys)
  case Nil
  then show ?case by auto
next
  case (Cons x xs)
  show ?case
  proof (cases ys)
    case Nil
    then show ?thesis by (auto simp: err_bind_eq_Inr)
  next
    case (Cons y ys')
    then show ?thesis
      by (auto simp: err_bind_eq_Inr Cons.IH nth_Cons split: nat.splits)
  qed
qed

lemma comprehension_fails:
  "x \<in> set xs \<Longrightarrow> f x = Inl e \<Longrightarrow> (\<forall>z \<in> set xs. f z = Inl e \<or> (\<exists>y. f z = Inr y)) \<Longrightarrow> comprehension f xs = Inl e"
proof (induction xs)
  case Nil
  then show ?case by simp
next
  case (Cons a xs)
  show ?case
  proof (cases "f a")
    case (Inl e')
    with Cons.prems show ?thesis by auto
  next
    case (Inr y)
    with Cons.prems have "x \<in> set xs" by auto
    with Cons have "comprehension f xs = Inl e" by auto
    with Inr show ?thesis by simp
  qed
qed

lemma getitem_result: "getitem xs i = Inl IndexError \<or> (\<exists>y. getitem xs i = Inr y)"
  by (simp add: getitem_def wrap_index_def)

lemma getitem_nat_Inr: "getitem xs (int k) = Inr y \<longleftrightarrow> k < length xs \<and> y = xs ! k"
  by (auto simp: getitem_def wrap_index_def)

lemma np_array_received:
  "np_array (if count = 1 then Scalar (reply 0) else Array (map reply [0..<nat count])) =
     map reply [0..<nat count]"
  by (simp add: np_array_def)

lemma get_information_eq:
  "get_information w =
     (Inr \<lparr>natoms_engine = e_natoms (engine w), npoles = e_npoles (engine w),
           ipoles = (if e_natoms (engine w) = 1 then Scalar (e_ipoles (engine w) 0)
                     else Array (map (e_ipoles (engine w)) [0..<nat (e_natoms (engine w))])),
           molecules = map (e_molecules (engine w)) [0..<nat (e_natoms (engine w))],
           residues = map (e_residues (engine w)) [0..<nat (e_natoms (engine w))]\<rparr>,
      [Send_Command ''<NATOMS'', Recv 1 MDI_INT, Send_Command ''<NPOLES'', Recv 1 MDI_INT,
       Send_Command ''<IPOLES'', Recv (e_natoms (engine w)) MDI_INT,
       Send_Command ''<MOLECULES'', Recv (e_natoms (engine w)) MDI_INT,
       Send_Command ''<RESIDUES'', Recv (e_natoms (engine w)) MDI_INT])"
  by (simp add: get_information_def MDI_Send_Command_def MDI_Recv_def recv_ints_def io_return_def
      np_array_received del: upt_Suc)

lemma get_information_lengths:
  assumes "fst (get_information w) = Inr info"
  shows "length (np_array (ipoles info)) = nat (natoms_engine info)"
    and "length (molecules info) = nat (natoms_engine info)"
    and "length (residues info) = nat (natoms_engine info)"
  using assms by (auto simp: get_information_eq np_array_def)

lemma get_information_ipoles:
  assumes "fst (get_information w) = Inr info"
  shows "ipoles info =
     (if e_natoms (engine w) = 1 then Scalar (e_ipoles (engine w) 0)
      else Array (map (e_ipoles (engine w)) [0..<nat (e_natoms (engine w))]))"
  using assms by (auto simp: get_information_eq)

lemma np_unique_props:
  "sorted (np_unique m)" "distinct (np_unique m)" "set (np_unique m) = set m"
  by (simp_all add: np_unique_def)

lemma set_np_where_eq: "set (np_where_eq m v) = {i. i < length m \<and> m ! i = v}"
  by (auto simp: np_where_eq_def)

lemma comprehension_always_fails:
  "(\<And>x. f x = Inl e) \<Longrightarrow> comprehension f xs = Inr ys \<Longrightarrow> xs = [] \<and> ys = []"
  by (cases xs) auto

lemma fragment_poles_eq_Inr:
  assumes "fragment_poles ips (fragment_atoms m v) = Inr ps"
  shows "ps = map ((!) (np_array ips)) (np_where_eq m v)"
proof (cases ips)
  case (Scalar x)
  with assms have "fragment_atoms m v = [] \<and> ps = []"
    by (intro comprehension_always_fails [of _ TypeError])
      (simp_all add: fragment_poles_def subscript_def)
  then show ?thesis by (simp add: fragment_atoms_def)
next
  case (Array xs)
  with assms have "length ps = length (np_where_eq m v) \<and>
        (\<forall>k < length (np_where_eq m v). np_where_eq m v ! k < length xs \<and> ps ! k = xs ! (np_where_eq m v ! k))"
    by (simp add: fragment_poles_def fragment_atoms_def comprehension_eq_Inr getitem_nat_Inr
        subscript_def)
  with Array show ?thesis
    by (auto simp: list_eq_iff_nth_eq np_array_def)
qed

lemma group_loop_eq:
  "group_loop ips m vs (I, P) = Inr (I', P') \<Longrightarrow>
     I' = I @ map (fragment_atoms m) vs \<and>
     P' = P @ map (\<lambda>v. map ((!) (np_array ips)) (np_where_eq m v)) vs"
proof (induction vs arbitrary: I P)
  case Nil
  then show ?case by simp
next
  case (Cons v vs)
  from Cons.prems obtain ps where ps: "fragment_poles ips (fragment_atoms m v) = Inr ps"
    and rest: "group_loop ips m vs (I @ [fragment_atoms m v], P @ [ps]) = Inr (I', P')"
    by (auto simp: err_bind_eq_Inr)
  from ps have "ps = map ((!) (np_array ips)) (np_where_eq m v)"
    by (rule fragment_poles_eq_Inr)
  with Cons.IH[OF rest] show ?case by simp
qed

lemma grouped_indices:
  assumes mode: "bymol a \<or> byres a"
    and idx: "calculate_indices a info probes = Inr idx"
    and m: "membership = (if bymol a then molecules info else residues info)"
  shows "from_fragment idx = np_unique membership"
    and "interest_atoms idx = map (fragment_atoms membership) (np_unique membership)"
    and "atoms_pole_numbers idx =
           map (\<lambda>v. map ((!) (np_array (ipoles info))) (np_where_eq membership v)) (np_unique membership)"
    and "by_type idx = (if bymol a then ''molecule'' else ''residue'')"
  using mode idx m
  by (auto simp: calculate_indices_def err_bind_eq_Inr split: if_splits dest!: group_loop_eq)


lemma commands_append [simp]: "commands (s @ t) = commands s @ commands t"
  by (simp add: commands_def)

lemma commands_simps [simp]:
  "commands [] = []"
  "commands (Send_Command token # t) = token # commands t"
  "commands (Send v n d # t) = commands t"
  "commands (Recv n d # t) = commands t"
  by (simp_all add: commands_def)

lemma mdi_checks_eq:
  "mdi_checks w =
     (if \<not> role_is_driver w then (Inl (Exception ''Must run driver_py.py as a DRIVER''), [])
      else if e_name (engine w) = ''NO_EWALD''
        then (Inr (), [Send_Command ''<NAME'', Recv (MDI_NAME_LENGTH w) MDI_CHAR])
        else (Inl (Exception ''Unrecognized engine name.''),
              [Send_Command ''<NAME'', Recv (MDI_NAME_LENGTH w) MDI_CHAR]))"
  by (simp add: mdi_checks_def io_raise_def io_return_def MDI_Send_Command_def MDI_Recv_def)

lemma mdi_checks_ok:
  "fst (mdi_checks w) = Inr u \<Longrightarrow>
     mdi_checks w = (Inr (), [Send_Command ''<NAME'', Recv (MDI_NAME_LENGTH w) MDI_CHAR])"
  by (simp add: mdi_checks_eq split: if_splits)

lemma send_probe_information_eq:
  "send_probe_information probes idx =
     (Inr (), [Send_Command ''>NPROBES'', Send (PInt (int (length probes))) 1 MDI_INT,
               Send_Command ''>PROBES'',
               Send (PInts (probe_pole_indices idx)) (int (length probes)) MDI_INT])"
  by (simp add: send_probe_information_def MDI_Send_Command_def MDI_Send_def)

lemma io_lift_eq [simp]: "io_lift r = (r, [])"
  by (simp add: io_lift_def)

lemma obeys_bind:
  assumes "obeys m xs" and "\<And>x. fst m = Inr x \<Longrightarrow> obeys (f x) ys"
  shows "obeys (io_bind m f) (xs @ ys)"
proof (cases "fst m")
  case (Inl e)
  with assms(1) show ?thesis
    by (auto simp: obeys_def io_bind_def intro: prefix_prefix)
next
  case (Inr x)
  with assms(1) have "commands (snd m) = xs" by (simp add: obeys_def)
  with assms(2)[OF Inr] Inr show ?thesis
    by (auto simp: obeys_def io_bind_def)
qed

lemma obeys_pure [simp]: "obeys (r, []) []"
  by (simp add: obeys_def)

lemma obeys_failed: "obeys (Inl e, []) cs"
  by (simp add: obeys_def)

lemma obeys_bind_pure:
  assumes "\<And>x. r = Inr x \<Longrightarrow> obeys (f x) ys"
  shows "obeys (io_bind (r, []) f) ys"
  using obeys_bind [of "(r, [])" "[]" f ys] assms by simp

lemma analyse_frame_eq:
  "analyse_frame w probes natoms npols idx snapshot =
     (case coords_of w natoms snapshot of
        Inl e \<Rightarrow> (Inl e, [])
      | Inr snapshot_coords \<Rightarrow>
          if npols < 0
          then (Inl ValueError,
                [Send_Command ''>COORDS'', Send (PDoubles snapshot_coords) (3 * natoms) MDI_DOUBLE])
          else
            (probe_loop probes snapshot_coords idx
               (fill (e_dfield (engine w) snapshot_coords) (replicate (length probes) (replicate (nat npols) [0, 0, 0])))
               (fill (e_ufield (engine w) snapshot_coords) (replicate (length probes) (replicate (nat npols) [0, 0, 0])))
               [0..<length probes]
               (DataFrame ([Probe_Atom, Probe_Coordinates] @ map (Fragment (by_type idx)) (from_fragment idx)),
                DataFrame ([Probe_Atom, Probe_Coordinates] @ map (Fragment (by_type idx)) (from_fragment idx))),
             [Send_Command ''>COORDS'', Send (PDoubles snapshot_coords) (3 * natoms) MDI_DOUBLE,
              Send_Command ''<DFIELD'', Recv (3 * npols * int (length probes)) MDI_DOUBLE,
              Send_Command ''<UFIELD'', Recv (3 * npols * int (length probes)) MDI_DOUBLE]))"
  by (simp add: analyse_frame_def np_zeros_def MDI_Send_Command_def MDI_Send_def MDI_Recv_def
      Let_def split: sum.splits)

lemma analyse_frame_obeys: "obeys (analyse_frame w probes natoms npols idx snapshot) frame_commands"
  by (simp add: analyse_frame_eq obeys_def frame_commands_def split: sum.splits)

lemma read_trajectory_obeys:
  "obeys (read_trajectory w probes natoms npols idx chunks tables)
     (concat (replicate (length chunks) frame_commands))"
proof (induction chunks arbitrary: tables)
  case Nil
  show ?case by (simp add: io_return_def)
next
  case (Cons chunk rest)
  have "obeys (io_bind (analyse_frame w probes natoms npols idx snapshot)
          (\<lambda>new_tables. read_trajectory w probes natoms npols idx rest (Some new_tables)))
        (frame_commands @ concat (replicate (length rest) frame_commands))" for snapshot
    by (rule obeys_bind [OF analyse_frame_obeys Cons.IH])
  then show ?case
    by (simp add: obeys_bind_pure)
qed

lemma read_trajectory_last:
  "fst (read_trajectory w probes natoms npols idx chunks tables) = Inr result \<Longrightarrow> chunks \<noteq> [] \<Longrightarrow>
     \<exists>snapshot t. last chunks = Inr snapshot \<and>
       fst (analyse_frame w probes natoms npols idx snapshot) = Inr t \<and> result = Some t"
proof (induction chunks arbitrary: tables)
  case Nil
  then show ?case by simp
next
  case (Cons chunk rest)
  from Cons.prems(1) obtain snapshot t where chunk: "chunk = Inr snapshot"
    and t: "fst (analyse_frame w probes natoms npols idx snapshot) = Inr t"
    and rest: "fst (read_trajectory w probes natoms npols idx rest (Some t)) = Inr result"
    by (auto simp: fst_io_bind_eq_Inr)
  show ?case
  proof (cases "rest = []")
    case True
    with rest have "result = Some t" by (simp add: io_return_def)
    with chunk t True show ?thesis by simp
  next
    case False
    from Cons.IH [OF rest False] False show ?thesis by simp
  qed
qed

lemma main_success:
  assumes "fst (main a w) = Inr out"
  obtains probes info idx natoms skip_line chunks tables where
    "handle_user_arguments a w = Inr probes"
    and "fst (mdi_checks w) = Inr ()"
    and "fst (get_information w) = Inr info"
    and "calculate_indices a info probes = Inr idx"
    and "compatibility_check w (natoms_engine info) = Inr (natoms, skip_line)"
    and "read_csv w (natoms + skip_line) skip_line = Inr chunks"
    and "fst (read_trajectory w probes natoms (npoles info) idx chunks None) = Inr tables"
    and "to_csv tables = Inr out"
proof -
  from assms obtain probes u info idx ns chunks tables where
    1: "handle_user_arguments a w = Inr probes" and 2: "fst (mdi_checks w) = Inr u"
    and 3: "fst (get_information w) = Inr info" and 4: "calculate_indices a info probes = Inr idx"
    and 5: "compatibility_check w (natoms_engine info) = Inr ns"
    and 6: "fst (case ns of (natoms, skip_line) \<Rightarrow>
              io_bind (io_lift (read_csv w (natoms + skip_line) skip_line)) (\<lambda>chunks.
              io_bind (read_trajectory w probes natoms (npoles info) idx chunks None) (\<lambda>tables.
              io_bind (io_lift (to_csv tables)) (\<lambda>out.
              io_bind (MDI_Send_Command ''EXIT'') (\<lambda>_. io_return out))))) = Inr out"
    unfolding main_def fst_io_bind_eq_Inr fst_io_lift by blast
  obtain natoms skip_line where ns: "ns = (natoms, skip_line)" by (cases ns)
  from 6 ns obtain chunks tables where
    7: "read_csv w (natoms + skip_line) skip_line = Inr chunks"
    and 8: "fst (read_trajectory w probes natoms (npoles info) idx chunks None) = Inr tables"
    and 9: "to_csv tables = Inr out"
    by (auto simp: fst_io_bind_eq_Inr io_return_def MDI_Send_Command_def)
  from 1 2 3 4 5 ns 7 8 9 show ?thesis
    by (intro that [of probes info idx natoms skip_line chunks tables]) simp_all
qed

lemma io_bind_pure_Inr [simp]: "io_bind (Inr x, []) f = f x"
  by (simp add: io_bind_def)

lemma get_information_info:
  "fst (get_information w) = Inr info \<Longrightarrow> natoms_engine info = e_natoms (engine w)"
  by (auto simp: get_information_eq)

lemma get_information_obeys:
  "obeys (get_information w) [''<NATOMS'', ''<NPOLES'', ''<IPOLES'', ''<MOLECULES'', ''<RESIDUES'']"
  by (simp add: get_information_eq obeys_def)

lemma mdi_checks_obeys: "obeys (mdi_checks w) [''<NAME'']"
  by (simp add: mdi_checks_eq obeys_def)

lemma send_probe_information_obeys: "obeys (send_probe_information probes idx) [''>NPROBES'', ''>PROBES'']"
  by (simp add: send_probe_information_eq obeys_def)

lemma write_and_exit_obeys:
  "obeys (io_bind (io_lift (to_csv tables)) (\<lambda>out.
          io_bind (MDI_Send_Command ''EXIT'') (\<lambda>_. io_return out))) [''EXIT'']"
  by (cases "to_csv tables") (simp_all add: obeys_def MDI_Send_Command_def io_return_def)

lemma frame_count_eq:
  assumes "fst (get_information w) = Inr info"
    and "compatibility_check w (natoms_engine info) = Inr (natoms, skip_line)"
  shows "frame_count w =
     (case read_csv w (natoms + skip_line) skip_line of Inl e \<Rightarrow> 0 | Inr chunks \<Rightarrow> length chunks)"
  using assms by (simp add: frame_count_def get_information_info)

lemma streaming_obeys:
  assumes info: "fst (get_information w) = Inr info"
    and ns: "compatibility_check w (natoms_engine info) = Inr ns"
  shows "obeys (case ns of (natoms, skip_line) \<Rightarrow>
            io_bind (io_lift (read_csv w (natoms + skip_line) skip_line)) (\<lambda>chunks.
            io_bind (read_trajectory w probes natoms (npoles info) idx chunks None) (\<lambda>tables.
            io_bind (io_lift (to_csv tables)) (\<lambda>out.
            io_bind (MDI_Send_Command ''EXIT'') (\<lambda>_. io_return out)))))
          (concat (replicate (frame_count w) frame_commands) @ [''EXIT''])"
proof -
  obtain natoms skip_line where p: "ns = (natoms, skip_line)" by (cases ns)
  note fc = frame_count_eq [OF info ns [unfolded p]]
  show ?thesis
  proof (cases "read_csv w (natoms + skip_line) skip_line")
    case (Inl e)
    then show ?thesis by (simp add: p obeys_failed)
  next
    case (Inr chunks)
    with fc have "frame_count w = length chunks" by simp
    with Inr obeys_bind [OF read_trajectory_obeys write_and_exit_obeys,
        of w probes natoms "npoles info" idx chunks None]
    show ?thesis
      by (simp add: p)
  qed
qed

lemma main_obeys: "obeys (main a w) (protocol (frame_count w))"
proof -
  let ?F = "concat (replicate (frame_count w) frame_commands) @ [''EXIT'']"
  have "obeys (main a w)
          ([] @ [''<NAME''] @ [''<NATOMS'', ''<NPOLES'', ''<IPOLES'', ''<MOLECULES'', ''<RESIDUES'']
              @ [] @ [''>NPROBES'', ''>PROBES''] @ [] @ ?F)"
    unfolding main_def
  proof (rule obeys_bind, simp, rule obeys_bind [OF mdi_checks_obeys],
      rule obeys_bind [OF get_information_obeys])
    fix probes u info
    assume info: "fst (get_information w) = Inr info"
    show "obeys (io_bind (io_lift (calculate_indices a info probes)) (\<lambda>idx.
            io_bind (send_probe_information probes idx) (\<lambda>_.
            io_bind (io_lift (compatibility_check w (natoms_engine info))) (\<lambda>(natoms, skip_line).
            io_bind (io_lift (read_csv w (natoms + skip_line) skip_line)) (\<lambda>chunks.
            io_bind (read_trajectory w probes natoms (npoles info) idx chunks None) (\<lambda>tables.
            io_bind (io_lift (to_csv tables)) (\<lambda>out.
            io_bind (MDI_Send_Command ''EXIT'') (\<lambda>_. io_return out))))))))
          ([] @ [''>NPROBES'', ''>PROBES''] @ [] @ ?F)"
    proof (rule obeys_bind, simp, rule obeys_bind [OF send_probe_information_obeys],
        rule obeys_bind, simp)
      fix idx ns
      assume "fst (io_lift (compatibility_check w (natoms_engine info))) = Inr ns"
      then have ns: "compatibility_check w (natoms_engine info) = Inr ns" by simp
      from streaming_obeys [OF info ns]
      show "obeys (case ns of (natoms, skip_line) \<Rightarrow>
            io_bind (io_lift (read_csv w (natoms + skip_line) skip_line)) (\<lambda>chunks.
            io_bind (read_trajectory w probes natoms (npoles info) idx chunks None) (\<lambda>tables.
            io_bind (io_lift (to_csv tables)) (\<lambda>out.
            io_bind (MDI_Send_Command ''EXIT'') (\<lambda>_. io_return out))))) ?F" .
    qed
  qed
  then show ?thesis
    by (simp add: protocol_def setup_commands_def)
qed

lemma main_frame_count:
  assumes "fst (main a w) = Inr out"
  shows "0 < frame_count w"
proof -
  from assms obtain probes info idx natoms skip_line chunks tables where
    info: "fst (get_information w) = Inr info"
    and ns: "compatibility_check w (natoms_engine info) = Inr (natoms, skip_line)"
    and chunks: "read_csv w (natoms + skip_line) skip_line = Inr chunks"
    and rt: "fst (read_trajectory w probes natoms (npoles info) idx chunks None) = Inr tables"
    and csv: "to_csv tables = Inr out"
    by (rule main_success)
  have "chunks \<noteq> []"
  proof
    assume "chunks = []"
    with rt have "tables = None" by (simp add: io_return_def)
    with csv show False by (simp add: to_csv_def)
  qed
  with frame_count_eq [OF info ns] chunks show ?thesis by simp
qed

lemma main_bad_arguments:
  "handle_user_arguments a w = Inl e \<Longrightarrow> main a w = (Inl e, [])"
  by (simp add: main_def)

lemma comprehension_all_Inr:
  "(\<forall>x \<in> set xs. \<exists>y. f x = Inr y) \<longleftrightarrow> (\<exists>ys. comprehension f xs = Inr ys)"
  by (induction xs) (auto simp: err_bind_eq_Inr)

lemma resolve_probes_out_of_range:
  assumes "p \<in> set probes" and "int (length xs) < p \<or> p \<le> - int (length xs)"
  shows "resolve_probes (Array xs) probes = Inl IndexError"
  unfolding resolve_probes_def
proof (rule comprehension_fails [OF assms(1)])
  show "subscript (Array xs) (p - 1) = Inl IndexError"
    using assms(2) by (auto simp: subscript_def getitem_def wrap_index_def)
  show "\<forall>z \<in> set probes. subscript (Array xs) (z - 1) = Inl IndexError \<or>
      (\<exists>y. subscript (Array xs) (z - 1) = Inr y)"
    by (simp add: subscript_def getitem_result)
qed

lemma resolve_probes_scalar:
  "probes \<noteq> [] \<Longrightarrow> resolve_probes (Scalar v) probes = Inl TypeError"
  by (cases probes) (simp_all add: resolve_probes_def subscript_def)

lemma compatibility_check_mismatch:
  assumes "read_header w = Inr (natoms, skip_line)" and "natoms \<noteq> n"
  shows "compatibility_check w n =
           Inl (Exception ''Snapshot file and engine have inconsistent number of atoms'')"
  using assms by (simp add: compatibility_check_def)

lemma foldl_map2_plus:
  assumes "length acc = 3" and "\<forall>r \<in> set rs. length r = 3"
  shows "foldl (\<lambda>acc r. map2 (+) acc r) acc rs = map (\<lambda>c. acc ! c + (\<Sum>r\<leftarrow>rs. r ! c)) [0..<3]"
  using assms
proof (induction rs arbitrary: acc)
  case Nil
  then show ?case by (auto simp: list_eq_iff_nth_eq)
next
  case (Cons r rs)
  then have r: "length r = 3" and rs: "\<forall>r \<in> set rs. length r = 3" by auto
  have len: "length (map2 (+) acc r) = 3" using Cons.prems(1) r by simp
  have nth: "map2 (+) acc r ! c = acc ! c + r ! c" if "c < 3" for c
    using that Cons.prems(1) r by simp
  show ?case
    using Cons.IH [OF len rs] by (auto simp: nth add.assoc)
qed

lemma sum_axis0_eq:
  assumes "\<forall>r \<in> set rs. length r = 3"
  shows "sum_axis0 rs = map (\<lambda>c. \<Sum>r\<leftarrow>rs. r ! c) [0..<3]"
  using foldl_map2_plus [of "[0, 0, 0]" rs] assms
  by (simp add: sum_axis0_def numeral_3_eq_3)

lemma fill_zeros:
  "fill reply (replicate n (replicate m [0, 0, 0])) =
     map (\<lambda>p. map (\<lambda>s. map (reply p s) [0..<3]) [0..<m]) [0..<n]"
  by (simp add: fill_def numeral_3_eq_3 cong: map_cong)

lemma getitem_Inr:
  "getitem xs j = Inr y \<Longrightarrow>
     nat (wrap_index (length xs) j) < length xs \<and> y = xs ! nat (wrap_index (length xs) j)"
  by (auto simp: getitem_def split: if_splits)

lemma field_at_probe_due_to_fragment_eq:
  assumes ok: "field_at_probe_due_to_fragment
                 (map (\<lambda>p. map (\<lambda>s. map (reply p s) [0..<3]) [0..<m]) [0..<n]) i fragment = Inr v"
    and i: "i < n"
  shows "v = map (\<lambda>c. \<Sum>s\<leftarrow>fragment. reply i (nat (wrap_index m (s - 1))) c) [0..<3]"
proof -
  let ?row = "\<lambda>s. map (reply i (nat (wrap_index m (s - 1)))) [0..<3]"
  from ok i obtain picked where
    picked: "comprehension (\<lambda>s. getitem (map (\<lambda>s. map (reply i s) [0..<3]) [0..<m]) (s - 1)) fragment
              = Inr picked"
    and v: "v = sum_axis0 picked"
    by (auto simp: field_at_probe_due_to_fragment_def err_bind_eq_Inr getitem_nat_Inr
        split: if_splits)
  have "picked = map ?row fragment"
  proof (rule nth_equalityI)
    show "length picked = length (map ?row fragment)"
      using picked by (simp add: comprehension_eq_Inr)
  next
    fix k assume "k < length picked"
    with picked have k: "k < length fragment"
      and "getitem (map (\<lambda>s. map (reply i s) [0..<3]) [0..<m]) (fragment ! k - 1) = Inr (picked ! k)"
      by (simp_all add: comprehension_eq_Inr)
    from getitem_Inr [OF this(2)] k show "picked ! k = map ?row fragment ! k"
      by simp
  qed
  then have "sum_axis0 picked = map (\<lambda>c. \<Sum>r\<leftarrow>map ?row fragment. r ! c) [0..<3]"
    by (simp add: sum_axis0_eq)
  also have "\<dots> = map (\<lambda>c. \<Sum>s\<leftarrow>fragment. reply i (nat (wrap_index m (s - 1))) c) [0..<3]"
    by (simp add: comp_def cong: map_cong)
  finally show ?thesis using v by simp
qed

lemma fragment_loop_other:
  assumes "fragment_loop idx d u i (enumerate n frags) (rd, ru) = Inr (rd', ru')"
    and "\<forall>j. n \<le> j \<and> j < n + length frags \<longrightarrow> key \<noteq> Fragment (by_type idx) (from_fragment idx ! j)"
  shows "rd' key = rd key \<and> ru' key = ru key"
  using assms
proof (induction frags arbitrary: n rd ru)
  case Nil
  then show ?case by simp
next
  case (Cons f fs)
  from Cons.prems(1) obtain dv uv where
    n: "n < length (from_fragment idx)"
    and rest: "fragment_loop idx d u i (enumerate (Suc n) fs)
                 (rd(Fragment (by_type idx) (from_fragment idx ! n) \<mapsto> Vec_cell dv),
                  ru(Fragment (by_type idx) (from_fragment idx ! n) \<mapsto> Vec_cell uv)) = Inr (rd', ru')"
    by (auto simp: err_bind_eq_Inr getitem_nat_Inr)
  from Cons.prems(2) have later: "\<forall>j. Suc n \<le> j \<and> j < Suc n + length fs \<longrightarrow>
      key \<noteq> Fragment (by_type idx) (from_fragment idx ! j)"
    and here: "key \<noteq> Fragment (by_type idx) (from_fragment idx ! n)"
    by auto
  from Cons.IH [OF rest later] here show ?case by simp
qed

lemma fragment_loop_at:
  assumes "fragment_loop idx d u i (enumerate n frags) (rd, ru) = Inr (rd', ru')"
    and "distinct (from_fragment idx)"
    and "n + length frags \<le> length (from_fragment idx)"
    and "k < length frags"
  shows "\<exists>dv uv. field_at_probe_due_to_fragment d i (frags ! k) = Inr dv \<and>
           field_at_probe_due_to_fragment u i (frags ! k) = Inr uv \<and>
           rd' (Fragment (by_type idx) (from_fragment idx ! (n + k))) = Some (Vec_cell dv) \<and>
           ru' (Fragment (by_type idx) (from_fragment idx ! (n + k))) = Some (Vec_cell uv)"
  using assms
proof (induction frags arbitrary: n rd ru k)
  case Nil
  then show ?case by simp
next
  case (Cons f fs)
  from Cons.prems(1) obtain dv uv where
    dv: "field_at_probe_due_to_fragment d i f = Inr dv"
    and uv: "field_at_probe_due_to_fragment u i f = Inr uv"
    and rest: "fragment_loop idx d u i (enumerate (Suc n) fs)
                 (rd(Fragment (by_type idx) (from_fragment idx ! n) \<mapsto> Vec_cell dv),
                  ru(Fragment (by_type idx) (from_fragment idx ! n) \<mapsto> Vec_cell uv)) = Inr (rd', ru')"
    by (auto simp: err_bind_eq_Inr getitem_nat_Inr)
  from Cons.prems(3) have len: "Suc n + length fs \<le> length (from_fragment idx)" by simp
  show ?case
  proof (cases k)
    case 0
    have "\<forall>j. Suc n \<le> j \<and> j < Suc n + length fs \<longrightarrow>
        Fragment (by_type idx) (from_fragment idx ! n) \<noteq> Fragment (by_type idx) (from_fragment idx ! j)"
      using Cons.prems(2) len by (auto simp: nth_eq_iff_index_eq)
    from fragment_loop_other [OF rest this] dv uv 0 show ?thesis by simp
  next
    case (Suc k')
    with Cons.prems(4) have "k' < length fs" by simp
    from Cons.IH [OF rest Cons.prems(2) len this] Suc show ?thesis by simp
  qed
qed

lemma rows_to_add_eq:
  assumes ok: "rows_to_add probes coords idx d u i = Inr (td, tu)"
    and i: "i < length probes"
  shows "\<exists>c. getitem coords (probes ! i) = Inr c \<and>
           td Probe_Atom = Some (Int_cell (probes ! i)) \<and>
           tu Probe_Atom = Some (Int_cell (probes ! i)) \<and>
           td Probe_Coordinates = Some (Vec_cell c) \<and>
           tu Probe_Coordinates = Some (Vec_cell c) \<and>
           fragment_loop idx d u i (enumerate 0 (atoms_pole_numbers idx))
             ([Probe_Atom \<mapsto> Int_cell (probes ! i), Probe_Coordinates \<mapsto> Vec_cell c],
              [Probe_Atom \<mapsto> Int_cell (probes ! i), Probe_Coordinates \<mapsto> Vec_cell c]) = Inr (td, tu)"
proof -
  from ok i obtain c where c: "getitem coords (probes ! i) = Inr c"
    and loop: "fragment_loop idx d u i (enumerate 0 (atoms_pole_numbers idx))
             ([Probe_Atom \<mapsto> Int_cell (probes ! i), Probe_Coordinates \<mapsto> Vec_cell c],
              [Probe_Atom \<mapsto> Int_cell (probes ! i), Probe_Coordinates \<mapsto> Vec_cell c]) = Inr (td, tu)"
    by (auto simp: rows_to_add_def err_bind_eq_Inr getitem_nat_Inr)
  from fragment_loop_other [OF loop, of Probe_Atom] fragment_loop_other [OF loop, of Probe_Coordinates]
    c loop
  show ?thesis by simp
qed

lemma probe_loop_rows:
  "probe_loop probes coords idx d u js (df, uf) = Inr (df', uf') \<Longrightarrow>
     \<exists>rs. comprehension (rows_to_add probes coords idx d u) js = Inr rs \<and>
          df_rows df' = df_rows df @ map fst rs \<and> df_rows uf' = df_rows uf @ map snd rs \<and>
          df_columns df' = df_columns df \<and> df_columns uf' = df_columns uf"
proof (induction js arbitrary: df uf)
  case Nil
  then show ?case by simp
next
  case (Cons j js)
  from Cons.prems obtain td tu where
    r: "rows_to_add probes coords idx d u j = Inr (td, tu)"
    and rest: "probe_loop probes coords idx d u js (df_append df td, df_append uf tu) = Inr (df', uf')"
    by (auto simp: err_bind_eq_Inr)
  from Cons.IH [OF rest] r show ?case
    by (auto simp: df_append_def)
qed

lemma analyse_frame_rows:
  assumes coords: "coords_of w natoms snapshot = Inr coords"
    and ok: "fst (analyse_frame w probes natoms npols idx snapshot) = Inr (dfield_df, ufield_df)"
    and i: "i < length probes"
  shows "0 \<le> npols \<and> length (df_rows dfield_df) = length probes \<and>
         length (df_rows ufield_df) = length probes \<and>
         rows_to_add probes coords idx
           (map (\<lambda>p. map (\<lambda>s. map (e_dfield (engine w) coords p s) [0..<3]) [0..<nat npols])
              [0..<length probes])
           (map (\<lambda>p. map (\<lambda>s. map (e_ufield (engine w) coords p s) [0..<3]) [0..<nat npols])
              [0..<length probes]) i
         = Inr (df_rows dfield_df ! i, df_rows ufield_df ! i)"
proof -
  let ?d = "map (\<lambda>p. map (\<lambda>s. map (e_dfield (engine w) coords p s) [0..<3]) [0..<nat npols])
              [0..<length probes]"
  let ?u = "map (\<lambda>p. map (\<lambda>s. map (e_ufield (engine w) coords p s) [0..<3]) [0..<nat npols])
              [0..<length probes]"
  let ?cols = "[Probe_Atom, Probe_Coordinates] @ map (Fragment (by_type idx)) (from_fragment idx)"
  from ok coords have n: "0 \<le> npols"
    and loop: "probe_loop probes coords idx ?d ?u [0..<length probes]
                 (DataFrame ?cols, DataFrame ?cols) = Inr (dfield_df, ufield_df)"
    by (auto simp: analyse_frame_eq fill_zeros split: if_splits)
  from probe_loop_rows [OF loop] obtain rs where
    rs: "comprehension (rows_to_add probes coords idx ?d ?u) [0..<length probes] = Inr rs"
    and d: "df_rows dfield_df = map fst rs" and u: "df_rows ufield_df = map snd rs"
    by (auto simp: DataFrame_def)
  from rs have len: "length rs = length probes"
    and "rows_to_add probes coords idx ?d ?u i = Inr (rs ! i)"
    using i by (simp_all add: comprehension_eq_Inr)
  with n d u i show ?thesis by simp
qed

lemma probe_coordinates_row:
  assumes coords: "coords_of w natoms snapshot = Inr coords"
    and ok: "fst (analyse_frame w probes natoms npols idx snapshot) = Inr (dfield_df, ufield_df)"
    and i: "i < length probes"
  shows "\<exists>c. getitem coords (probes ! i) = Inr c \<and>
           (df_rows dfield_df ! i) Probe_Coordinates = Some (Vec_cell c) \<and>
           (df_rows ufield_df ! i) Probe_Coordinates = Some (Vec_cell c)"
proof -
  from analyse_frame_rows [OF coords ok i] obtain d u where
    "rows_to_add probes coords idx d u i = Inr (df_rows dfield_df ! i, df_rows ufield_df ! i)"
    by blast
  from rows_to_add_eq [OF this i] show ?thesis by blast
qed

lemma atom_indices:
  assumes "\<not> bymol a" and "\<not> byres a" and "calculate_indices a info probes = Inr idx"
  obtains ppi entries where "ipoles info = Array entries"
    and "idx = \<lparr>probe_pole_indices = ppi, by_type = ''atom'',
              from_fragment = [1..natoms_engine info],
              interest_atoms = map (\<lambda>x. [x]) [1..natoms_engine info],
              atoms_pole_numbers = map (\<lambda>x. [x]) entries\<rparr>"
  using assms
  by (auto simp: calculate_indices_def err_bind_eq_Inr iterate_def split: received.splits)

lemma indices_labels:
  assumes info: "fst (get_information w) = Inr info"
    and idx: "calculate_indices a info probes = Inr idx"
  shows "distinct (from_fragment idx) \<and> length (atoms_pole_numbers idx) = length (from_fragment idx)"
proof (cases "bymol a \<or> byres a")
  case True
  from grouped_indices [OF True idx refl] show ?thesis
    by (simp add: np_unique_props)
next
  case False
  then have "\<not> bymol a" "\<not> byres a" by simp_all
  from this idx obtain ppi entries where "ipoles info = Array entries"
    and "idx = \<lparr>probe_pole_indices = ppi, by_type = ''atom'',
              from_fragment = [1..natoms_engine info],
              interest_atoms = map (\<lambda>x. [x]) [1..natoms_engine info],
              atoms_pole_numbers = map (\<lambda>x. [x]) entries\<rparr>"
    by (rule atom_indices)
  with get_information_lengths(1) [OF info] show ?thesis by (simp add: np_array_def)
qed

lemma calculate_indices_probes:
  "calculate_indices a info probes = Inr idx \<Longrightarrow>
     resolve_probes (ipoles info) probes = Inr (probe_pole_indices idx)"
  by (auto simp: calculate_indices_def err_bind_eq_Inr split: if_splits)

lemma resolve_probes_reported:
  assumes info: "fst (get_information w) = Inr info"
    and ok: "resolve_probes (ipoles info) probes = Inr ppi"
  shows "ppi = map (reported_pole w) probes"
proof (cases "e_natoms (engine w) = 1")
  case True
  with get_information_ipoles [OF info] ok
  have "comprehension (\<lambda>atom_number. (Inl TypeError :: error + int)) probes = Inr ppi"
    by (simp add: resolve_probes_def subscript_def)
  then have "probes = [] \<and> ppi = []"
    by (intro comprehension_always_fails [of _ TypeError]) simp_all
  then show ?thesis by simp
next
  case False
  let ?xs = "map (e_ipoles (engine w)) [0..<nat (e_natoms (engine w))]"
  from False get_information_ipoles [OF info] ok
  have c: "comprehension (\<lambda>atom_number. getitem ?xs (atom_number - 1)) probes = Inr ppi"
    by (simp add: resolve_probes_def subscript_def)
  show ?thesis
  proof (rule nth_equalityI)
    show "length ppi = length (map (reported_pole w) probes)"
      using c by (simp add: comprehension_eq_Inr)
  next
    fix j assume "j < length ppi"
    with c have j: "j < length probes" and "getitem ?xs (probes ! j - 1) = Inr (ppi ! j)"
      by (simp_all add: comprehension_eq_Inr)
    from getitem_Inr [OF this(2)] j show "ppi ! j = map (reported_pole w) probes ! j"
      by (simp add: reported_pole_def)
  qed
qed

lemma analyse_frame_events:
  assumes "fst (analyse_frame w probes natoms npols idx snapshot) = Inr t"
  shows "\<exists>c. coords_of w natoms snapshot = Inr c \<and>
           snd (analyse_frame w probes natoms npols idx snapshot) =
             [Send_Command ''>COORDS'', Send (PDoubles c) (3 * natoms) MDI_DOUBLE,
              Send_Command ''<DFIELD'', Recv (3 * npols * int (length probes)) MDI_DOUBLE,
              Send_Command ''<UFIELD'', Recv (3 * npols * int (length probes)) MDI_DOUBLE]"
  using assms by (auto simp: analyse_frame_eq split: sum.splits if_splits)

lemma read_trajectory_events:
  "fst (read_trajectory w probes natoms npols idx chunks tables) = Inr result \<Longrightarrow>
     \<exists>coords. list_all2 (chunk_coords w natoms) chunks coords \<and>
       snd (read_trajectory w probes natoms npols idx chunks tables) =
         concat (map (\<lambda>c.
             [Send_Command ''>COORDS'', Send (PDoubles c) (3 * natoms) MDI_DOUBLE,
              Send_Command ''<DFIELD'', Recv (3 * npols * int (length probes)) MDI_DOUBLE,
              Send_Command ''<UFIELD'', Recv (3 * npols * int (length probes)) MDI_DOUBLE]) coords)"
proof (induction chunks arbitrary: tables)
  case Nil
  then show ?case by (simp add: io_return_def)
next
  case (Cons chunk rest)
  from Cons.prems obtain snapshot t where chunk: "chunk = Inr snapshot"
    and t: "fst (analyse_frame w probes natoms npols idx snapshot) = Inr t"
    and rest: "fst (read_trajectory w probes natoms npols idx rest (Some t)) = Inr result"
    by (auto simp: fst_io_bind_eq_Inr)
  from analyse_frame_events [OF t] obtain c where
    c: "coords_of w natoms snapshot = Inr c"
    and ev: "snd (analyse_frame w probes natoms npols idx snapshot) =
             [Send_Command ''>COORDS'', Send (PDoubles c) (3 * natoms) MDI_DOUBLE,
              Send_Command ''<DFIELD'', Recv (3 * npols * int (length probes)) MDI_DOUBLE,
              Send_Command ''<UFIELD'', Recv (3 * npols * int (length probes)) MDI_DOUBLE]"
    by blast
  from Cons.IH [OF rest] obtain coords where
    all: "list_all2 (chunk_coords w natoms) rest coords"
    and evs: "snd (read_trajectory w probes natoms npols idx rest (Some t)) =
         concat (map (\<lambda>c.
             [Send_Command ''>COORDS'', Send (PDoubles c) (3 * natoms) MDI_DOUBLE,
              Send_Command ''<DFIELD'', Recv (3 * npols * int (length probes)) MDI_DOUBLE,
              Send_Command ''<UFIELD'', Recv (3 * npols * int (length probes)) MDI_DOUBLE]) coords)"
    by blast
  have "list_all2 (chunk_coords w natoms) (chunk # rest) (c # coords)"
    using all c chunk by (simp add: chunk_coords_def)
  moreover have "snd (read_trajectory w probes natoms npols idx (chunk # rest) tables) =
      snd (analyse_frame w probes natoms npols idx snapshot) @
      snd (read_trajectory w probes natoms npols idx rest (Some t))"
    using chunk t by (simp add: io_bind_def)
  ultimately show ?case
    using ev evs by (intro exI [of _ "c # coords"]) simp
qed

lemma main_events:
  assumes ok: "fst (main a w) = Inr out"
  shows "\<exists>probes natoms skip_line chunks coords.
           handle_user_arguments a w = Inr probes \<and>
           read_header w = Inr (natoms, skip_line) \<and>
           read_csv w (natoms + skip_line) skip_line = Inr chunks \<and>
           length chunks = frame_count w \<and>
           list_all2 (chunk_coords w natoms) chunks coords \<and>
           snd (main a w) =
             query_events w @ registration_events w probes @
             concat (map (frame_events w (length probes) natoms) coords) @ [Send_Command ''EXIT'']"
proof -
  from ok obtain probes info idx natoms skip_line chunks tables where
    args: "handle_user_arguments a w = Inr probes"
    and chk: "fst (mdi_checks w) = Inr ()"
    and info: "fst (get_information w) = Inr info"
    and idx: "calculate_indices a info probes = Inr idx"
    and ns: "compatibility_check w (natoms_engine info) = Inr (natoms, skip_line)"
    and chunks: "read_csv w (natoms + skip_line) skip_line = Inr chunks"
    and rt: "fst (read_trajectory w probes natoms (npoles info) idx chunks None) = Inr tables"
    and csv: "to_csv tables = Inr out"
    by (rule main_success)
  define gi where "gi = snd (get_information w)"
  define tr where "tr = snd (read_trajectory w probes natoms (npoles info) idx chunks None)"
  have gi: "get_information w = (Inr info, gi)"
    using info by (simp add: gi_def prod_eq_iff)
  have rt': "read_trajectory w probes natoms (npoles info) idx chunks None = (Inr tables, tr)"
    using rt by (simp add: tr_def prod_eq_iff)
  have np: "npoles info = e_npoles (engine w)"
    using info by (auto simp: get_information_eq)
  have header: "read_header w = Inr (natoms, skip_line)"
    using ns by (auto simp: compatibility_check_def err_bind_eq_Inr split: if_splits)
  from frame_count_eq [OF info ns] chunks have fc: "length chunks = frame_count w" by simp
  have ppi: "probe_pole_indices idx = map (reported_pole w) probes"
    using info calculate_indices_probes [OF idx] by (rule resolve_probes_reported)
  from read_trajectory_events [OF rt] obtain coords where
    all: "list_all2 (chunk_coords w natoms) chunks coords"
    and evs: "tr = concat (map (frame_events w (length probes) natoms) coords)"
    unfolding tr_def frame_events_def np by blast
  have m: "snd (main a w) =
      (snd (mdi_checks w) @ gi) @ snd (send_probe_information probes idx) @ tr @ [Send_Command ''EXIT'']"
    by (simp add: main_def args mdi_checks_ok [OF chk] gi idx send_probe_information_eq ns chunks
        rt' csv MDI_Send_Command_def io_return_def)
  have q: "snd (mdi_checks w) @ gi = query_events w"
    unfolding gi_def by (simp add: mdi_checks_ok [OF chk] get_information_eq query_events_def)
  have "snd (main a w) =
      query_events w @ registration_events w probes @
      concat (map (frame_events w (length probes) natoms) coords) @ [Send_Command ''EXIT'']"
    unfolding m q by (simp add: send_probe_information_eq registration_events_def ppi evs)
  with args header chunks fc all show ?thesis by blast
qed

lemma no_registration_without_resolution:
  assumes args: "handle_user_arguments a w = Inr probes"
    and info: "fst (get_information w) = Inr info"
    and bad: "resolve_probes (ipoles info) probes = Inl e"
  shows "''>NPROBES'' \<notin> set (commands (snd (main a w))) \<and>
         ''>PROBES'' \<notin> set (commands (snd (main a w)))"
proof -
  define gi where "gi = snd (get_information w)"
  have gi: "get_information w = (Inr info, gi)"
    using info by (simp add: gi_def prod_eq_iff)
  have gi_commands: "commands gi = [''<NATOMS'', ''<NPOLES'', ''<IPOLES'', ''<MOLECULES'', ''<RESIDUES'']"
    unfolding gi_def by (simp add: get_information_eq)
  from bad have ci: "calculate_indices a info probes = Inl e"
    by (simp add: calculate_indices_def)
  show ?thesis
    by (simp add: main_def args mdi_checks_eq gi ci gi_commands)
qed

text \<open>The resolver never yields a fragment without members.\<close>

lemma fragments_nonempty:
  assumes idx: "calculate_indices a info probes = Inr idx"
  shows "[] \<notin> set (atoms_pole_numbers idx)"
proof (cases "bymol a \<or> byres a")
  case True
  let ?m = "if bymol a then molecules info else residues info"
  have "np_where_eq ?m v \<noteq> []" if "v \<in> set (np_unique ?m)" for v
  proof -
    from that have "v \<in> set ?m" by (simp only: np_unique_props)
    then obtain i where "i < length ?m" "?m ! i = v" by (auto simp: in_set_conv_nth)
    then have "i \<in> set (np_where_eq ?m v)" by (simp add: set_np_where_eq)
    then show ?thesis by auto
  qed
  then show ?thesis
    unfolding grouped_indices(3) [OF True idx refl] by auto
next
  case False
  with idx show ?thesis
    by (auto simp: calculate_indices_def err_bind_eq_Inr iterate_def split: received.splits)
qed

section \<open>The small run, evaluated\<close>

lemma upt_2: "[0..<2] = [0, 1]"
  by (simp add: upt_rec)

lemma small_get_information: "fst (get_information small_world) = Inr small_info"
  by (simp add: get_information_eq small_world_def small_engine_def small_info_def upt_2)

lemma upto_1_2: "[1..2] = [1, 2::int]"
  by (simp add: upto_rec1)

lemma small_atom_mode:
  "calculate_indices (small_args p False False) small_info [1] = Inr small_atom_indices"
  by (simp add: calculate_indices_def small_args_def small_info_def small_atom_indices_def
      resolve_probes_def subscript_def iterate_def getitem_def wrap_index_def upto_1_2)


lemma small_frames_eq: "small_frames = [Inr small_frame1, Inr small_frame2]"
  by (simp add: small_frames_def)

lemma small_world_fields:
  "py_int small_world = decimal"
  "to_numeric small_world = (\<lambda>c. map_option real_of_int (decimal c))"
  "role_is_driver small_world"
  "MDI_NAME_LENGTH small_world = 12"
  "engine small_world = small_engine"
  "angstrom_to_bohr small_world = 2"
  "read_csv small_world n k = Inr small_frames"
  by (simp_all add: small_world_def)

lemma small_engine_fields:
  "e_name small_engine = ''NO_EWALD''"
  "e_natoms small_engine = 2"
  "e_npoles small_engine = 2"
  "e_dfield small_engine coords p s k = real s + 1 + hd (hd coords)"
  "e_ufield small_engine coords p s k = - real k"
  by (simp_all add: small_engine_def)

lemma small_info_fields: "natoms_engine small_info = 2" "npoles small_info = 2"
  by (simp_all add: small_info_def)

lemma small_arguments:
  "handle_user_arguments (small_args ''1'' False False) small_world = Inr [1]"
  "handle_user_arguments (small_args ''1'' False True) small_world = Inr [1]"
  "handle_user_arguments (small_args ''0'' False False) small_world = Inr [0]"
  "handle_user_arguments (small_args ''3'' False False) small_world = Inr [3]"
  by (simp_all add: handle_user_arguments_def small_args_def small_world_fields str_split_def
      isspace_def int_of_def decimal_def)

lemma small_mdi_checks:
  "mdi_checks small_world = (Inr (), [Send_Command ''<NAME'', Recv 12 MDI_CHAR])"
  by (simp add: mdi_checks_eq small_world_fields small_engine_fields)

lemma small_information:
  "get_information small_world =
     (Inr small_info,
      [Send_Command ''<NATOMS'', Recv 1 MDI_INT, Send_Command ''<NPOLES'', Recv 1 MDI_INT,
       Send_Command ''<IPOLES'', Recv 2 MDI_INT, Send_Command ''<MOLECULES'', Recv 2 MDI_INT,
       Send_Command ''<RESIDUES'', Recv 2 MDI_INT])"
  by (simp add: get_information_eq small_world_def small_engine_def small_info_def upt_2)

lemma small_header: "read_header small_world = Inr (2, 1)"
  by (simp add: read_header_def small_world_def str_split_def isspace_def int_of_def decimal_def
      readline_def getitem_def wrap_index_def)

lemma small_compatibility: "compatibility_check small_world 2 = Inr (2, 1)"
  by (simp add: compatibility_check_def small_header)

lemma small_coords:
  "coords_of small_world 2 small_frame1 = Inr [[2, 4, 6], [8, 10, 12]]"
  "coords_of small_world 2 small_frame2 = Inr [[14, 16, 18], [20, 22, 24]]"
  by (simp_all add: coords_of_def small_frame1_def small_frame2_def slice_to_def numeric_cell_def
      small_world_fields decimal_def)

lemma small_tensor:
  "fill r [[[0, 0, 0], [0, 0, 0]]] =
     [[[r 0 0 0, r 0 0 1, r 0 0 2], [r 0 1 0, r 0 1 1, r 0 1 2]]]"
  by (simp add: fill_def upt_rec numeral_2_eq_2 numeral_3_eq_3)

lemma small_analysis1:
  "analyse_frame small_world [1] 2 2 small_atom_indices small_frame1 =
   (Inr (\<lparr>df_columns = small_columns,
          df_rows = [[Probe_Atom \<mapsto> Int_cell 1, Probe_Coordinates \<mapsto> Vec_cell [8, 10, 12],
                      Fragment ''atom'' 1 \<mapsto> Vec_cell [3, 3, 3],
                      Fragment ''atom'' 2 \<mapsto> Vec_cell [4, 4, 4]]]\<rparr>,
         \<lparr>df_columns = small_columns,
          df_rows = [[Probe_Atom \<mapsto> Int_cell 1, Probe_Coordinates \<mapsto> Vec_cell [8, 10, 12],
                      Fragment ''atom'' 1 \<mapsto> Vec_cell [0, - 1, - 2],
                      Fragment ''atom'' 2 \<mapsto> Vec_cell [0, - 1, - 2]]]\<rparr>),
    [Send_Command ''>COORDS'', Send (PDoubles [[2, 4, 6], [8, 10, 12]]) 6 MDI_DOUBLE,
     Send_Command ''<DFIELD'', Recv 6 MDI_DOUBLE, Send_Command ''<UFIELD'', Recv 6 MDI_DOUBLE])"
  by (simp add: analyse_frame_eq small_coords small_tensor small_columns_def
      small_atom_indices_def rows_to_add_def getitem_def wrap_index_def DataFrame_def df_append_def
      field_at_probe_due_to_fragment_def sum_axis0_def small_world_fields small_engine_fields
      enumerate_eq_zip upt_rec numeral_2_eq_2)

lemma small_analysis2:
  "analyse_frame small_world [1] 2 2 small_atom_indices small_frame2 =
   (Inr (dfield_csv small_written, ufield_csv small_written),
    [Send_Command ''>COORDS'', Send (PDoubles [[14, 16, 18], [20, 22, 24]]) 6 MDI_DOUBLE,
     Send_Command ''<DFIELD'', Recv 6 MDI_DOUBLE, Send_Command ''<UFIELD'', Recv 6 MDI_DOUBLE])"
  by (simp add: analyse_frame_eq small_coords small_tensor small_columns_def small_written_def
      small_atom_indices_def rows_to_add_def getitem_def wrap_index_def DataFrame_def df_append_def
      field_at_probe_due_to_fragment_def sum_axis0_def small_world_fields small_engine_fields
      enumerate_eq_zip upt_rec numeral_2_eq_2)

lemma small_probe_pole_indices: "probe_pole_indices small_atom_indices = [1]"
  by (simp add: small_atom_indices_def)

lemma small_main:
  "main (small_args ''1'' False False) small_world = (Inr small_written, small_trace)"
  by (simp add: main_def small_arguments small_mdi_checks small_information small_atom_mode
      send_probe_information_eq small_info_fields small_compatibility small_world_fields
      small_frames_eq small_analysis1 small_analysis2 io_return_def to_csv_def
      MDI_Send_Command_def small_trace_def small_probe_pole_indices)

lemma boxed_header:
  "snapshot_lines boxed_world =
     Inr [''2 water'', ''10.0 10.0 10.0 90.0 90.0 90.0'', ''1 O 1 2 3 1 2'', ''2 H 4 5 6 2 1'']"
  "read_header boxed_world = Inr (2, 2)"
  "length (str_split ''10.0 10.0 10.0 90.0 90.0 90.0'') = 6"
  by (simp_all add: read_header_def boxed_world_def small_world_def str_split_def isspace_def
      int_of_def decimal_def readline_def getitem_def wrap_index_def)

lemma small_lines:
  "snapshot_lines small_world =
     Inr [''2 water'', ''1 O 1 2 3 1 2'', ''2 H 4 5 6 2 1'',
          ''2 water'', ''1 O 7 8 9 1 2'', ''2 H 10 11 12 2 1'']"
  by (simp add: small_world_def)

lemma mismatch_facts:
  "read_header mismatch_world = Inr (3, 1)"
  "e_natoms (engine mismatch_world) = 2"
  "fst (get_information mismatch_world) = Inr small_info"
  "handle_user_arguments (small_args ''1'' False False) mismatch_world = Inr [1]"
  "fst (mdi_checks mismatch_world) = Inr ()"
  by (simp_all add: read_header_def mismatch_world_def small_world_def small_engine_def
      str_split_def isspace_def int_of_def decimal_def readline_def getitem_def wrap_index_def
      get_information_eq small_info_def upt_2 handle_user_arguments_def small_args_def
      mdi_checks_eq)

lemma small_frame_count: "frame_count small_world = 2"
  by (simp add: frame_count_def small_world_fields small_engine_fields small_compatibility
      small_frames_eq)

lemma small_resolution:
  "calculate_indices (small_args ''0'' False False) small_info [0] =
     Inr \<lparr>probe_pole_indices = [2], by_type = ''atom'', from_fragment = [1, 2],
          interest_atoms = [[1], [2]], atoms_pole_numbers = [[1], [2]]\<rparr>"
  "calculate_indices (small_args ''2'' False False) small_info [2] =
     Inr (small_atom_indices\<lparr>probe_pole_indices := [2]\<rparr>)"
  "calculate_indices (small_args ''3'' False False) small_info [3] = Inl IndexError"
  by (simp_all add: calculate_indices_def small_args_def small_info_def small_atom_indices_def
      resolve_probes_def subscript_def iterate_def getitem_def wrap_index_def upto_1_2)

lemma small_main_probe_3:
  "main (small_args ''3'' False False) small_world =
     (Inl IndexError,
      [Send_Command ''<NAME'', Recv 12 MDI_CHAR, Send_Command ''<NATOMS'', Recv 1 MDI_INT,
       Send_Command ''<NPOLES'', Recv 1 MDI_INT, Send_Command ''<IPOLES'', Recv 2 MDI_INT,
       Send_Command ''<MOLECULES'', Recv 2 MDI_INT, Send_Command ''<RESIDUES'', Recv 2 MDI_INT])"
  by (simp add: main_def small_arguments small_mdi_checks small_information small_resolution)

lemma small_arguments_2:
  "handle_user_arguments (small_args ''2'' False False) small_world = Inr [2]"
  by (simp add: handle_user_arguments_def small_args_def small_world_fields str_split_def
      isspace_def int_of_def decimal_def)

lemma small_analysis_last_atom:
  "analyse_frame small_world [2] 2 2 (small_atom_indices\<lparr>probe_pole_indices := [2]\<rparr>) small_frame1 =
   (Inl IndexError,
    [Send_Command ''>COORDS'', Send (PDoubles [[2, 4, 6], [8, 10, 12]]) 6 MDI_DOUBLE,
     Send_Command ''<DFIELD'', Recv 6 MDI_DOUBLE, Send_Command ''<UFIELD'', Recv 6 MDI_DOUBLE])"
  by (simp add: analyse_frame_eq small_coords small_tensor
      small_atom_indices_def rows_to_add_def getitem_def wrap_index_def DataFrame_def
      small_world_fields small_engine_fields)

lemma small_main_probe_2:
  "fst (main (small_args ''2'' False False) small_world) = Inl IndexError"
  by (simp add: main_def small_arguments_2 small_mdi_checks small_information small_resolution
      send_probe_information_eq small_info_fields small_compatibility small_world_fields
      small_frames_eq small_analysis_last_atom)

lemma single_atom_facts:
  "handle_user_arguments (small_args ''3'' False False) single_atom_world = Inr [3]"
  "fst (mdi_checks single_atom_world) = Inr ()"
  "e_natoms (engine single_atom_world) = 1"
  by (simp_all add: single_atom_world_def small_world_def small_engine_def
      handle_user_arguments_def small_args_def str_split_def isspace_def int_of_def decimal_def
      mdi_checks_eq)

lemma siteless_fields:
  "to_numeric siteless_world = (\<lambda>c. map_option real_of_int (decimal c))"
  "angstrom_to_bohr siteless_world = 2"
  "e_dfield (engine siteless_world) coords p s k = real s + 1 + hd (hd coords)"
  "e_ufield (engine siteless_world) coords p s k = - real k"
  by (simp_all add: siteless_world_def small_world_def small_engine_def)

lemma siteless_information: "fst (get_information siteless_world) = Inr siteless_info"
  by (simp add: get_information_eq siteless_world_def small_world_def small_engine_def
      siteless_info_def upt_2)

lemma siteless_resolution:
  "calculate_indices (small_args ''1'' False False) siteless_info [1] = Inr siteless_atom_indices"
  "calculate_indices (small_args ''1'' False True) siteless_info [1] = Inr siteless_molecule_indices"
  by (simp_all add: calculate_indices_def small_args_def siteless_info_def
      siteless_atom_indices_def siteless_molecule_indices_def resolve_probes_def subscript_def
      iterate_def getitem_def wrap_index_def upto_1_2 np_unique_def fragment_poles_def
      fragment_atoms_def np_where_eq_def upt_2)

lemma siteless_coords:
  "coords_of siteless_world 2 small_frame2 = Inr [[14, 16, 18], [20, 22, 24]]"
  by (simp add: coords_of_def small_frame2_def slice_to_def numeric_cell_def
      siteless_fields decimal_def)

lemma siteless_analysis:
  "fst (analyse_frame siteless_world [1] 2 2 siteless_atom_indices small_frame2) = Inr siteless_tables"
  by (simp add: analyse_frame_eq siteless_coords small_tensor small_columns_def siteless_tables_def
      siteless_atom_indices_def rows_to_add_def getitem_def wrap_index_def DataFrame_def df_append_def
      field_at_probe_due_to_fragment_def sum_axis0_def siteless_fields
      enumerate_eq_zip upt_rec numeral_2_eq_2)

lemma small_residue_mode:
  "calculate_indices (small_args ''1'' True False) small_info [1] = Inr small_residue_indices"
  by (simp add: calculate_indices_def small_args_def small_info_def small_residue_indices_def
      resolve_probes_def subscript_def getitem_def wrap_index_def np_unique_def fragment_poles_def
      fragment_atoms_def np_where_eq_def upt_2)

lemma small_residue_analysis:
  "fst (analyse_frame small_world [1] 2 2 small_residue_indices small_frame2) = Inr small_residue_tables"
  by (simp add: analyse_frame_eq small_coords small_tensor small_residue_tables_def
      small_residue_indices_def rows_to_add_def getitem_def wrap_index_def DataFrame_def df_append_def
      field_at_probe_due_to_fragment_def sum_axis0_def small_world_fields small_engine_fields
      enumerate_eq_zip upt_rec numeral_2_eq_2)

lemma small_resolution_fails: "resolve_probes (ipoles small_info) [3] = Inl IndexError"
  by (simp add: small_info_def resolve_probes_def subscript_def getitem_def wrap_index_def)

section \<open>The claims\<close>

text \<open>
  C1. Only the last frame reaches the output files. Whenever the run completes, the
  reader has yielded at least one chunk, and the two tables written are exactly the
  tables the loop body computes from the last chunk: every iteration binds the table
  variables anew, so no row of an earlier frame is left in them.
\<close>

theorem only_last_frame_written:
  assumes "fst (main a w) = Inr out"
  shows "\<exists>probes info idx natoms skip_line chunks snapshot.
           handle_user_arguments a w = Inr probes \<and>
           fst (get_information w) = Inr info \<and>
           calculate_indices a info probes = Inr idx \<and>
           compatibility_check w (natoms_engine info) = Inr (natoms, skip_line) \<and>
           read_csv w (natoms + skip_line) skip_line = Inr chunks \<and>
           chunks \<noteq> [] \<and> last chunks = Inr snapshot \<and>
           fst (analyse_frame w probes natoms (npoles info) idx snapshot) =
             Inr (dfield_csv out, ufield_csv out)"
proof -
  from assms obtain probes info idx natoms skip_line chunks tables where
    1: "handle_user_arguments a w = Inr probes"
    and info: "fst (get_information w) = Inr info"
    and idx: "calculate_indices a info probes = Inr idx"
    and ns: "compatibility_check w (natoms_engine info) = Inr (natoms, skip_line)"
    and chunks: "read_csv w (natoms + skip_line) skip_line = Inr chunks"
    and rt: "fst (read_trajectory w probes natoms (npoles info) idx chunks None) = Inr tables"
    and csv: "to_csv tables = Inr out"
    by (rule main_success)
  have ne: "chunks \<noteq> []"
  proof
    assume "chunks = []"
    with rt have "tables = None" by (simp add: io_return_def)
    with csv show False by (simp add: to_csv_def)
  qed
  from read_trajectory_last [OF rt ne] obtain snapshot t where
    last: "last chunks = Inr snapshot"
    and t: "fst (analyse_frame w probes natoms (npoles info) idx snapshot) = Inr t"
    and tables: "tables = Some t" by blast
  from csv tables have "t = (dfield_csv out, ufield_csv out)"
    by (cases t) (auto simp: to_csv_def)
  with 1 info idx ns chunks ne last t show ?thesis by blast
qed

theorem only_last_frame_written_witness:
  "fst (main (small_args ''1'' False False) small_world) = Inr small_written \<and>
   (\<exists>probes info idx natoms skip_line chunks snapshot.
      handle_user_arguments (small_args ''1'' False False) small_world = Inr probes \<and>
      fst (get_information small_world) = Inr info \<and>
      calculate_indices (small_args ''1'' False False) info probes = Inr idx \<and>
      compatibility_check small_world (natoms_engine info) = Inr (natoms, skip_line) \<and>
      read_csv small_world (natoms + skip_line) skip_line = Inr chunks \<and>
      chunks \<noteq> [] \<and> last chunks = Inr snapshot \<and>
      fst (analyse_frame small_world probes natoms (npoles info) idx snapshot) =
        Inr (dfield_csv small_written, ufield_csv small_written))"
proof -
  have ok: "fst (main (small_args ''1'' False False) small_world) = Inr small_written"
    by (simp add: small_main)
  from only_last_frame_written [OF ok] ok show ?thesis by (intro conjI)
qed

text \<open>
  C2. The claim is that the \<open>Probe Coordinates\<close> cell of a row holds the converted
  coordinates of the probe atom, the atom whose 1-based identifier is \<^verbatim>\<open>probes[i]\<close>.
  The script reads \<^verbatim>\<open>snapshot_coords[probes[i]]\<close>, row \<^verbatim>\<open>probes[i]\<close> of the 0-based
  coordinate array, which is the atom after the probe. In the small run with probe 1 the
  last frame has atom 1 at (14, 16, 18) and atom 2 at (20, 22, 24), and the row written
  for probe 1 carries (20, 22, 24); with probe 2, the last atom, the same read is out of
  range and the run ends in an IndexError.
\<close>

theorem probe_coordinates_taken_one_row_late:
  "fst (main (small_args ''1'' False False) small_world) = Inr small_written \<and>
   last small_frames = Inr small_frame2 \<and>
   coords_of small_world 2 small_frame2 = Inr [[14, 16, 18], [20, 22, 24]] \<and>
   (df_rows (dfield_csv small_written) ! 0) Probe_Atom = Some (Int_cell 1) \<and>
   (df_rows (dfield_csv small_written) ! 0) Probe_Coordinates = Some (Vec_cell [20, 22, 24]) \<and>
   (df_rows (ufield_csv small_written) ! 0) Probe_Coordinates = Some (Vec_cell [20, 22, 24]) \<and>
   fst (main (small_args ''2'' False False) small_world) = Inl IndexError"
  by (simp add: small_main small_frames_eq small_coords small_main_probe_2)
    (simp add: small_written_def)

text \<open>
  C3, as the code has it. A requested probe identifier greater than the engine's atom
  count, or not greater than its negative, makes probe resolution fail: with an
  IndexError, or with a TypeError when the engine reports exactly one atom, since the
  single value received is then a bare integer and cannot be subscripted. The failure
  comes after the engine has answered the six queries from \<^verbatim>\<open><NAME\<close> to \<^verbatim>\<open><RESIDUES\<close>
  (the atom count and the pole indices come from the engine), and before anything else
  is sent: no probe registration and no frame command.
\<close>

theorem out_of_range_probe_fails_before_registration:
  assumes "handle_user_arguments a w = Inr probes"
    and "fst (mdi_checks w) = Inr ()"
    and "p \<in> set probes"
    and "e_natoms (engine w) < p \<or> p \<le> - e_natoms (engine w)"
  shows "fst (main a w) = Inl (if e_natoms (engine w) = 1 then TypeError else IndexError) \<and>
         snd (main a w) = query_events w \<and>
         commands (snd (main a w)) =
           [''<NAME'', ''<NATOMS'', ''<NPOLES'', ''<IPOLES'', ''<MOLECULES'', ''<RESIDUES'']"
proof -
  let ?ips = "if e_natoms (engine w) = 1 then Scalar (e_ipoles (engine w) 0)
              else Array (map (e_ipoles (engine w)) [0..<nat (e_natoms (engine w))])"
  let ?info = "\<lparr>natoms_engine = e_natoms (engine w), npoles = e_npoles (engine w),
           ipoles = ?ips,
           molecules = map (e_molecules (engine w)) [0..<nat (e_natoms (engine w))],
           residues = map (e_residues (engine w)) [0..<nat (e_natoms (engine w))]\<rparr>"
  let ?e = "if e_natoms (engine w) = 1 then TypeError else IndexError"
  have "resolve_probes ?ips probes = Inl ?e"
  proof (cases "e_natoms (engine w) = 1")
    case True
    from assms(3) have "probes \<noteq> []" by auto
    with True show ?thesis by (simp add: resolve_probes_scalar)
  next
    case False
    have "resolve_probes (Array (map (e_ipoles (engine w)) [0..<nat (e_natoms (engine w))])) probes
        = Inl IndexError"
      using assms(3) by (rule resolve_probes_out_of_range) (use assms(4) in auto)
    with False show ?thesis by simp
  qed
  then have "calculate_indices a ?info probes = Inl ?e"
    by (simp add: calculate_indices_def)
  then have "main a w = (Inl ?e, query_events w)"
    by (simp add: main_def assms(1) mdi_checks_ok [OF assms(2)] get_information_eq
        query_events_def)
  then show ?thesis by (simp add: query_events_def)
qed

theorem out_of_range_probe_fails_before_registration_witness:
  "handle_user_arguments (small_args ''3'' False False) small_world = Inr [3] \<and>
   fst (mdi_checks small_world) = Inr () \<and>
   3 \<in> set [3::int] \<and>
   (e_natoms (engine small_world) < 3 \<or> 3 \<le> - e_natoms (engine small_world)) \<and>
   e_natoms (engine small_world) = 2 \<and>
   fst (main (small_args ''3'' False False) small_world) = Inl IndexError \<and>
   snd (main (small_args ''3'' False False) small_world) = query_events small_world \<and>
   handle_user_arguments (small_args ''3'' False False) single_atom_world = Inr [3] \<and>
   fst (mdi_checks single_atom_world) = Inr () \<and>
   (e_natoms (engine single_atom_world) < 3 \<or> 3 \<le> - e_natoms (engine single_atom_world)) \<and>
   e_natoms (engine single_atom_world) = 1 \<and>
   fst (main (small_args ''3'' False False) single_atom_world) = Inl TypeError \<and>
   snd (main (small_args ''3'' False False) single_atom_world) = query_events single_atom_world"
proof -
  have h1: "handle_user_arguments (small_args ''3'' False False) small_world = Inr [3]"
    by (simp add: small_arguments)
  have h2: "fst (mdi_checks small_world) = Inr ()"
    by (simp add: small_mdi_checks)
  have h3: "3 \<in> set [3::int]" by simp
  have n: "e_natoms (engine small_world) = 2"
    by (simp add: small_world_fields small_engine_fields)
  have h4: "e_natoms (engine small_world) < 3 \<or> 3 \<le> - e_natoms (engine small_world)"
    by (simp add: n)
  note c = out_of_range_probe_fails_before_registration [OF h1 h2 h3 h4]
  have c1: "fst (main (small_args ''3'' False False) small_world) = Inl IndexError"
    using c [THEN conjunct1] by (simp add: n)
  note g1 = single_atom_facts(1) and g2 = single_atom_facts(2) and m = single_atom_facts(3)
  have g4: "e_natoms (engine single_atom_world) < 3 \<or> 3 \<le> - e_natoms (engine single_atom_world)"
    by (simp add: m)
  note d = out_of_range_probe_fails_before_registration [OF g1 g2 h3 g4]
  have d1: "fst (main (small_args ''3'' False False) single_atom_world) = Inl TypeError"
    using d [THEN conjunct1] by (simp add: m)
  show ?thesis
    by (intro conjI h1 h2 h3 h4 n c1 c [THEN conjunct2, THEN conjunct1] g1 g2 g4 m d1
        d [THEN conjunct2, THEN conjunct1])
qed

text \<open>
  C3 as stated fails twice in the small run. The identifier 0 is below 1, yet resolution
  succeeds: \<^verbatim>\<open>ipoles[0 - 1]\<close> is the last entry of the array. The identifier 3 exceeds the
  two atoms and does raise, but only after six commands have gone to the engine.
\<close>

theorem probe_range_counterexample:
  "handle_user_arguments (small_args ''0'' False False) small_world = Inr [0] \<and>
   fst (get_information small_world) = Inr small_info \<and>
   calculate_indices (small_args ''0'' False False) small_info [0] =
     Inr \<lparr>probe_pole_indices = [2], by_type = ''atom'', from_fragment = [1, 2],
          interest_atoms = [[1], [2]], atoms_pole_numbers = [[1], [2]]\<rparr> \<and>
   handle_user_arguments (small_args ''3'' False False) small_world = Inr [3] \<and>
   fst (main (small_args ''3'' False False) small_world) = Inl IndexError \<and>
   commands (snd (main (small_args ''3'' False False) small_world)) =
     [''<NAME'', ''<NATOMS'', ''<NPOLES'', ''<IPOLES'', ''<MOLECULES'', ''<RESIDUES'']"
  by (simp add: small_arguments small_get_information small_resolution small_main_probe_3)

text \<open>
  C4, as the code has it. For every frame the loop body analyses, every probe \<open>i\<close> and
  every fragment \<open>k\<close> whose members are site indices (1-based, so at least 1), the cell
  of row \<open>i\<close> in the fragment's column is the plain component-wise sum, over the
  members \<open>s\<close> of the fragment, of entry \<open>(i, s - 1)\<close> of the frame's field tensor: no
  weight and no normalisation. This holds for the D-field table and for the U-field
  table alike, and no fragment of the resolver is without members.
\<close>

theorem fragment_field_is_plain_sum:
  assumes info: "fst (get_information w) = Inr info"
    and idx: "calculate_indices a info probes = Inr idx"
    and coords: "coords_of w natoms snapshot = Inr coords"
    and ok: "fst (analyse_frame w probes natoms (npoles info) idx snapshot) = Inr (dfield_df, ufield_df)"
    and i: "i < length probes"
    and k: "k < length (atoms_pole_numbers idx)"
    and sites: "\<forall>s \<in> set (atoms_pole_numbers idx ! k). 1 \<le> s"
  shows "atoms_pole_numbers idx ! k \<noteq> [] \<and>
         (df_rows dfield_df ! i) Probe_Atom = Some (Int_cell (probes ! i)) \<and>
         (df_rows ufield_df ! i) Probe_Atom = Some (Int_cell (probes ! i)) \<and>
         (df_rows dfield_df ! i) (Fragment (by_type idx) (from_fragment idx ! k)) =
           Some (Vec_cell (map (\<lambda>c. \<Sum>s\<leftarrow>atoms_pole_numbers idx ! k.
                                   e_dfield (engine w) coords i (nat (s - 1)) c) [0..<3])) \<and>
         (df_rows ufield_df ! i) (Fragment (by_type idx) (from_fragment idx ! k)) =
           Some (Vec_cell (map (\<lambda>c. \<Sum>s\<leftarrow>atoms_pole_numbers idx ! k.
                                   e_ufield (engine w) coords i (nat (s - 1)) c) [0..<3]))"
proof -
  let ?d = "map (\<lambda>p. map (\<lambda>s. map (e_dfield (engine w) coords p s) [0..<3]) [0..<nat (npoles info)])
              [0..<length probes]"
  let ?u = "map (\<lambda>p. map (\<lambda>s. map (e_ufield (engine w) coords p s) [0..<3]) [0..<nat (npoles info)])
              [0..<length probes]"
  let ?td = "df_rows dfield_df ! i" and ?tu = "df_rows ufield_df ! i"
  let ?frag = "atoms_pole_numbers idx ! k"
  from fragments_nonempty [OF idx] k have ne: "?frag \<noteq> []"
    by (metis nth_mem)
  from analyse_frame_rows [OF coords ok i]
  have rows: "rows_to_add probes coords idx ?d ?u i = Inr (?td, ?tu)" by simp
  from rows_to_add_eq [OF rows i] obtain c where
    atom: "?td Probe_Atom = Some (Int_cell (probes ! i))" "?tu Probe_Atom = Some (Int_cell (probes ! i))"
    and loop: "fragment_loop idx ?d ?u i (enumerate 0 (atoms_pole_numbers idx))
             ([Probe_Atom \<mapsto> Int_cell (probes ! i), Probe_Coordinates \<mapsto> Vec_cell c],
              [Probe_Atom \<mapsto> Int_cell (probes ! i), Probe_Coordinates \<mapsto> Vec_cell c]) = Inr (?td, ?tu)"
    by blast
  from indices_labels [OF info idx]
  have lab: "distinct (from_fragment idx)"
    and len: "0 + length (atoms_pole_numbers idx) \<le> length (from_fragment idx)" by simp_all
  from fragment_loop_at [OF loop lab len k] obtain dv uv where
    dv: "field_at_probe_due_to_fragment ?d i ?frag = Inr dv"
    and uv: "field_at_probe_due_to_fragment ?u i ?frag = Inr uv"
    and cells: "?td (Fragment (by_type idx) (from_fragment idx ! k)) = Some (Vec_cell dv)"
      "?tu (Fragment (by_type idx) (from_fragment idx ! k)) = Some (Vec_cell uv)"
    by auto
  have pos: "nat (wrap_index (nat (npoles info)) (s - 1)) = nat (s - 1)" if "s \<in> set ?frag" for s
    using sites that by (auto simp: wrap_index_def)
  have "dv = map (\<lambda>c. \<Sum>s\<leftarrow>?frag. e_dfield (engine w) coords i (nat (s - 1)) c) [0..<3]"
    using field_at_probe_due_to_fragment_eq [OF dv i] pos by (simp cong: map_cong)
  moreover have "uv = map (\<lambda>c. \<Sum>s\<leftarrow>?frag. e_ufield (engine w) coords i (nat (s - 1)) c) [0..<3]"
    using field_at_probe_due_to_fragment_eq [OF uv i] pos by (simp cong: map_cong)
  ultimately show ?thesis using ne atom cells by simp
qed

theorem fragment_field_is_plain_sum_witness:
  "fst (get_information small_world) = Inr small_info \<and>
   calculate_indices (small_args ''1'' True False) small_info [1] = Inr small_residue_indices \<and>
   coords_of small_world 2 small_frame2 = Inr [[14, 16, 18], [20, 22, 24]] \<and>
   fst (analyse_frame small_world [1] 2 (npoles small_info) small_residue_indices small_frame2) =
     Inr small_residue_tables \<and>
   0 < length [1::int] \<and> 0 < length (atoms_pole_numbers small_residue_indices) \<and>
   atoms_pole_numbers small_residue_indices ! 0 = [1, 2] \<and>
   (df_rows (fst small_residue_tables) ! 0) (Fragment ''residue'' 5) = Some (Vec_cell [31, 31, 31]) \<and>
   (df_rows (snd small_residue_tables) ! 0) (Fragment ''residue'' 5) = Some (Vec_cell [0, - 2, - 4]) \<and>
   (df_rows (fst small_residue_tables) ! 0) (Fragment (by_type small_residue_indices)
       (from_fragment small_residue_indices ! 0)) =
     Some (Vec_cell (map (\<lambda>c. \<Sum>s\<leftarrow>atoms_pole_numbers small_residue_indices ! 0.
             e_dfield (engine small_world) [[14, 16, 18], [20, 22, 24]] 0 (nat (s - 1)) c) [0..<3])) \<and>
   (df_rows (snd small_residue_tables) ! 0) (Fragment (by_type small_residue_indices)
       (from_fragment small_residue_indices ! 0)) =
     Some (Vec_cell (map (\<lambda>c. \<Sum>s\<leftarrow>atoms_pole_numbers small_residue_indices ! 0.
             e_ufield (engine small_world) [[14, 16, 18], [20, 22, 24]] 0 (nat (s - 1)) c) [0..<3]))"
proof -
  note h1 = small_get_information and h2 = small_residue_mode and h3 = small_coords(2)
  have h4': "fst (analyse_frame small_world [1] 2 (npoles small_info) small_residue_indices small_frame2) =
     Inr small_residue_tables"
    by (simp add: small_info_fields small_residue_analysis)
  then have h4: "fst (analyse_frame small_world [1] 2 (npoles small_info) small_residue_indices small_frame2) =
     Inr (fst small_residue_tables, snd small_residue_tables)"
    by simp
  have h5: "0 < length [1::int]" by simp
  have h6: "0 < length (atoms_pole_numbers small_residue_indices)"
    and f: "atoms_pole_numbers small_residue_indices ! 0 = [1, 2]"
    by (simp_all add: small_residue_indices_def)
  have h7: "\<forall>s \<in> set (atoms_pole_numbers small_residue_indices ! 0). 1 \<le> s"
    by (simp only: f) simp
  have v: "(df_rows (fst small_residue_tables) ! 0) (Fragment ''residue'' 5) = Some (Vec_cell [31, 31, 31])"
    "(df_rows (snd small_residue_tables) ! 0) (Fragment ''residue'' 5) = Some (Vec_cell [0, - 2, - 4])"
    by (simp_all add: small_residue_tables_def)
  note c = fragment_field_is_plain_sum [OF h1 h2 h3 h4 h5 h6 h7]
  show ?thesis
    by (intro conjI h1 h2 h3 h4' h5 h6 f v
        c [THEN conjunct2, THEN conjunct2, THEN conjunct2, THEN conjunct1]
        c [THEN conjunct2, THEN conjunct2, THEN conjunct2, THEN conjunct2])
qed

text \<open>
  C4 as stated fails where a member is not a site index. With pole index 0 reported for
  both atoms, the fragment of atom 1 is [0]; the script reads entry \<open>0 - 1\<close>, which
  numpy takes from the end, and reports (16, 16, 16), the field of the last site, where
  the first site's field is 15. And for a fragment without members the script's
  expression does not give the zero vector: the index array is of float type and numpy
  raises IndexError.
\<close>

theorem fragment_sum_counterexample:
  "fst (get_information siteless_world) = Inr siteless_info \<and>
   calculate_indices (small_args ''1'' False False) siteless_info [1] = Inr siteless_atom_indices \<and>
   atoms_pole_numbers siteless_atom_indices ! 0 = [0] \<and>
   from_fragment siteless_atom_indices ! 0 = 1 \<and>
   coords_of siteless_world 2 small_frame2 = Inr [[14, 16, 18], [20, 22, 24]] \<and>
   fst (analyse_frame siteless_world [1] 2 2 siteless_atom_indices small_frame2) = Inr siteless_tables \<and>
   (df_rows (fst siteless_tables) ! 0) (Fragment ''atom'' 1) = Some (Vec_cell [16, 16, 16]) \<and>
   e_dfield (engine siteless_world) [[14, 16, 18], [20, 22, 24]] 0 0 0 = 15 \<and>
   e_dfield (engine siteless_world) [[14, 16, 18], [20, 22, 24]] 0 1 0 = 16 \<and>
   field_at_probe_due_to_fragment [[[1, 2, 3], [4, 5, 6]]] 0 [] = Inl IndexError"
  by (simp add: siteless_information siteless_resolution siteless_coords siteless_analysis
      siteless_fields)
    (simp add: siteless_atom_indices_def siteless_tables_def field_at_probe_due_to_fragment_def)

text \<open>
  C5. With both \<^verbatim>\<open>--byres\<close> and \<^verbatim>\<open>--bymol\<close> the run ends in an error before any
  communicator call is made; where the probe list consists of integers, the error is the
  one \<^verbatim>\<open>parser.error\<close> raises for the conflict.
\<close>

theorem both_flags_abort_without_engine_io:
  assumes "byres a" and "bymol a"
  shows "snd (main a w) = [] \<and> isl (fst (main a w)) \<and>
         ((\<forall>token \<in> set (str_split (probes_arg a)). py_int w token \<noteq> None) \<longrightarrow>
            fst (main a w) =
              Inl (SystemExit ''--byres and --bymol cannot be used together. Please only use one.''))"
proof -
  have "\<exists>e. handle_user_arguments a w = Inl e"
    using assms
    by (cases "comprehension (int_of w) (str_split (probes_arg a))")
      (simp_all add: handle_user_arguments_def)
  then obtain e where e: "handle_user_arguments a w = Inl e" ..
  have "handle_user_arguments a w =
      Inl (SystemExit ''--byres and --bymol cannot be used together. Please only use one.'')"
    if "\<forall>token \<in> set (str_split (probes_arg a)). py_int w token \<noteq> None"
  proof -
    from that have "\<forall>token \<in> set (str_split (probes_arg a)). \<exists>n. int_of w token = Inr n"
      by (auto simp: int_of_def)
    then obtain probes where "comprehension (int_of w) (str_split (probes_arg a)) = Inr probes"
      unfolding comprehension_all_Inr ..
    with assms show ?thesis by (simp add: handle_user_arguments_def)
  qed
  with e main_bad_arguments [OF e] show ?thesis by auto
qed

theorem both_flags_abort_without_engine_io_witness:
  "byres (small_args ''1'' True True) \<and> bymol (small_args ''1'' True True) \<and>
   str_split (probes_arg (small_args ''1'' True True)) = [''1''] \<and>
   py_int small_world ''1'' = Some 1 \<and>
   snd (main (small_args ''1'' True True) small_world) = [] \<and>
   isl (fst (main (small_args ''1'' True True) small_world)) \<and>
   fst (main (small_args ''1'' True True) small_world) =
     Inl (SystemExit ''--byres and --bymol cannot be used together. Please only use one.'')"
proof -
  have h1: "byres (small_args ''1'' True True)" and h2: "bymol (small_args ''1'' True True)"
    by (simp_all add: small_args_def)
  have t: "str_split (probes_arg (small_args ''1'' True True)) = [''1'']"
    by (simp add: small_args_def str_split_def isspace_def)
  have p: "py_int small_world ''1'' = Some 1"
    by (simp add: small_world_fields decimal_def)
  have all: "\<forall>token \<in> set (str_split (probes_arg (small_args ''1'' True True))).
      py_int small_world token \<noteq> None"
    by (simp add: t p)
  note c = both_flags_abort_without_engine_io [OF h1 h2, of small_world]
  note c3 = c [THEN conjunct2, THEN conjunct2, THEN mp, OF all]
  show ?thesis
    by (intro conjI h1 h2 t p c [THEN conjunct1] c [THEN conjunct2, THEN conjunct1] c3)
qed

text \<open>
  C6. When the atom count on the first line of the snapshot file differs from the atom
  count the engine reports, the run ends in an error and no \<^verbatim>\<open>>COORDS\<close> command is ever
  sent; when the run gets as far as the check, the error is the compatibility exception
  and the commands sent are exactly the eight of the setup.
\<close>

theorem atom_count_mismatch_raises_before_coords:
  assumes header: "read_header w = Inr (natoms, skip_line)"
    and differ: "natoms \<noteq> e_natoms (engine w)"
    and info: "fst (get_information w) = Inr info"
  shows "isl (fst (main a w)) \<and>
         ''>COORDS'' \<notin> set (commands (snd (main a w))) \<and>
         (handle_user_arguments a w = Inr probes \<and> fst (mdi_checks w) = Inr () \<and>
          calculate_indices a info probes = Inr idx \<longrightarrow>
            fst (main a w) =
              Inl (Exception ''Snapshot file and engine have inconsistent number of atoms'') \<and>
            commands (snd (main a w)) = setup_commands)"
proof -
  note bad = compatibility_check_mismatch [OF header differ]
  have fc: "frame_count w = 0"
    by (simp add: frame_count_def bad)
  have failed: "isl (fst (main a w))"
  proof (cases "fst (main a w)")
    case (Inl e)
    then show ?thesis by simp
  next
    case (Inr out)
    from main_frame_count [OF Inr] fc show ?thesis by simp
  qed
  from main_obeys [of a w] have "prefix (commands (snd (main a w))) (setup_commands @ [''EXIT''])"
    by (simp add: obeys_def fc protocol_def)
  then have "set (commands (snd (main a w))) \<subseteq> set (setup_commands @ [''EXIT''])"
    by (rule set_mono_prefix)
  then have no_coords: "''>COORDS'' \<notin> set (commands (snd (main a w)))"
    by (auto simp: setup_commands_def)
  have "fst (main a w) =
          Inl (Exception ''Snapshot file and engine have inconsistent number of atoms'') \<and>
        commands (snd (main a w)) = setup_commands"
    if 1: "handle_user_arguments a w = Inr probes" and 2: "fst (mdi_checks w) = Inr ()"
      and 3: "calculate_indices a info probes = Inr idx"
  proof -
    from info have gi: "get_information w = (Inr info, snd (get_information w))"
      by (metis prod.collapse)
    have ne: "natoms_engine info = e_natoms (engine w)"
      using info by (rule get_information_info)
    have "main a w =
        (Inl (Exception ''Snapshot file and engine have inconsistent number of atoms''),
         snd (mdi_checks w) @ snd (get_information w) @ snd (send_probe_information probes idx))"
      unfolding main_def
      by (subst gi) (simp add: 1 mdi_checks_ok [OF 2] 3 send_probe_information_eq ne bad)
    then show ?thesis
      by (simp add: mdi_checks_ok [OF 2] get_information_eq send_probe_information_eq
          setup_commands_def)
  qed
  with failed no_coords show ?thesis by blast
qed

theorem atom_count_mismatch_raises_before_coords_witness:
  "read_header mismatch_world = Inr (3, 1) \<and>
   3 \<noteq> e_natoms (engine mismatch_world) \<and>
   fst (get_information mismatch_world) = Inr small_info \<and>
   handle_user_arguments (small_args ''1'' False False) mismatch_world = Inr [1] \<and>
   fst (mdi_checks mismatch_world) = Inr () \<and>
   calculate_indices (small_args ''1'' False False) small_info [1] = Inr small_atom_indices \<and>
   isl (fst (main (small_args ''1'' False False) mismatch_world)) \<and>
   ''>COORDS'' \<notin> set (commands (snd (main (small_args ''1'' False False) mismatch_world))) \<and>
   fst (main (small_args ''1'' False False) mismatch_world) =
     Inl (Exception ''Snapshot file and engine have inconsistent number of atoms'') \<and>
   commands (snd (main (small_args ''1'' False False) mismatch_world)) = setup_commands"
proof -
  note h1 = mismatch_facts(1)
  have h2: "3 \<noteq> e_natoms (engine mismatch_world)"
    by (simp add: mismatch_facts)
  note h3 = mismatch_facts(3) and h4 = mismatch_facts(4) and h5 = mismatch_facts(5)
    and h6 = small_atom_mode [of "''1''"]
  note c = atom_count_mismatch_raises_before_coords [OF h1 h2 h3,
      of "small_args ''1'' False False" "[1]" small_atom_indices]
  have pre: "handle_user_arguments (small_args ''1'' False False) mismatch_world = Inr [1] \<and>
      fst (mdi_checks mismatch_world) = Inr () \<and>
      calculate_indices (small_args ''1'' False False) small_info [1] = Inr small_atom_indices"
    by (intro conjI h4 h5 h6)
  note c3 = c [THEN conjunct2, THEN conjunct2, rule_format, OF pre]
  show ?thesis
    by (intro conjI h1 h2 h3 h4 h5 h6 c [THEN conjunct1] c [THEN conjunct2, THEN conjunct1]
        c3 [THEN conjunct1] c3 [THEN conjunct2])
qed






text \<open>
  C9. The commands of every run are an initial part of the required order, and of a run
  that completes they are the whole of it: the six queries, then \<^verbatim>\<open>>NPROBES\<close> and
  \<^verbatim>\<open>>PROBES\<close> once each, then for each chunk of the reader \<^verbatim>\<open>>COORDS\<close>, \<^verbatim>\<open><DFIELD\<close>,
  \<^verbatim>\<open><UFIELD\<close> in this order, then \<^verbatim>\<open>EXIT\<close>. The whole exchange of a completed run is
  fixed with it: \<^verbatim>\<open>>NPROBES\<close> carries the number of probes, \<^verbatim>\<open>>PROBES\<close> the pole
  indices the engine reported for the probe atoms, each \<^verbatim>\<open>>COORDS\<close> the converted
  coordinates of its chunk, and each field command is followed by its receive. The
  registration follows the resolution: when resolution fails, neither \<^verbatim>\<open>>NPROBES\<close> nor
  \<^verbatim>\<open>>PROBES\<close> is sent.
\<close>

theorem command_order:
  "prefix (commands (snd (main a w))) (protocol (frame_count w)) \<and>
   (\<forall>out. fst (main a w) = Inr out \<longrightarrow>
      commands (snd (main a w)) = protocol (frame_count w) \<and> 0 < frame_count w \<and>
      (\<exists>probes natoms skip_line chunks coords.
         handle_user_arguments a w = Inr probes \<and>
         read_header w = Inr (natoms, skip_line) \<and>
         read_csv w (natoms + skip_line) skip_line = Inr chunks \<and>
         length chunks = frame_count w \<and>
         list_all2 (chunk_coords w natoms) chunks coords \<and>
         snd (main a w) =
           query_events w @ registration_events w probes @
           concat (map (frame_events w (length probes) natoms) coords) @ [Send_Command ''EXIT''])) \<and>
   (\<forall>probes info e.
      handle_user_arguments a w = Inr probes \<and> fst (get_information w) = Inr info \<and>
      resolve_probes (ipoles info) probes = Inl e \<longrightarrow>
        ''>NPROBES'' \<notin> set (commands (snd (main a w))) \<and>
        ''>PROBES'' \<notin> set (commands (snd (main a w))))"
proof (intro conjI allI impI)
  show "prefix (commands (snd (main a w))) (protocol (frame_count w))"
    using main_obeys [of a w] by (simp add: obeys_def)
next
  fix out assume "fst (main a w) = Inr out"
  then show "commands (snd (main a w)) = protocol (frame_count w)"
    using main_obeys [of a w] by (simp add: obeys_def)
next
  fix out assume "fst (main a w) = Inr out"
  then show "0 < frame_count w" by (rule main_frame_count)
next
  fix out assume "fst (main a w) = Inr out"
  then show "\<exists>probes natoms skip_line chunks coords.
         handle_user_arguments a w = Inr probes \<and>
         read_header w = Inr (natoms, skip_line) \<and>
         read_csv w (natoms + skip_line) skip_line = Inr chunks \<and>
         length chunks = frame_count w \<and>
         list_all2 (chunk_coords w natoms) chunks coords \<and>
         snd (main a w) =
           query_events w @ registration_events w probes @
           concat (map (frame_events w (length probes) natoms) coords) @ [Send_Command ''EXIT'']"
    by (rule main_events)
next
  fix probes info e
  assume "handle_user_arguments a w = Inr probes \<and> fst (get_information w) = Inr info \<and>
      resolve_probes (ipoles info) probes = Inl e"
  then show "''>NPROBES'' \<notin> set (commands (snd (main a w)))"
    and "''>PROBES'' \<notin> set (commands (snd (main a w)))"
    using no_registration_without_resolution [of a w probes info e] by simp_all
qed

theorem command_order_witness:
  "fst (main (small_args ''1'' False False) small_world) = Inr small_written \<and>
   frame_count small_world = 2 \<and>
   prefix (commands (snd (main (small_args ''1'' False False) small_world)))
     (protocol (frame_count small_world)) \<and>
   commands (snd (main (small_args ''1'' False False) small_world)) =
     protocol (frame_count small_world) \<and>
   0 < frame_count small_world \<and>
   (\<exists>probes natoms skip_line chunks coords.
      handle_user_arguments (small_args ''1'' False False) small_world = Inr probes \<and>
      read_header small_world = Inr (natoms, skip_line) \<and>
      read_csv small_world (natoms + skip_line) skip_line = Inr chunks \<and>
      length chunks = frame_count small_world \<and>
      list_all2 (chunk_coords small_world natoms) chunks coords \<and>
      snd (main (small_args ''1'' False False) small_world) =
        query_events small_world @ registration_events small_world probes @
        concat (map (frame_events small_world (length probes) natoms) coords) @
        [Send_Command ''EXIT'']) \<and>
   snd (main (small_args ''1'' False False) small_world) = small_trace \<and>
   handle_user_arguments (small_args ''3'' False False) small_world = Inr [3] \<and>
   fst (get_information small_world) = Inr small_info \<and>
   resolve_probes (ipoles small_info) [3] = Inl IndexError \<and>
   ''>NPROBES'' \<notin> set (commands (snd (main (small_args ''3'' False False) small_world))) \<and>
   ''>PROBES'' \<notin> set (commands (snd (main (small_args ''3'' False False) small_world)))"
proof -
  have ok: "fst (main (small_args ''1'' False False) small_world) = Inr small_written"
    and tr: "snd (main (small_args ''1'' False False) small_world) = small_trace"
    by (simp_all add: small_main)
  note c = command_order [of "small_args ''1'' False False" small_world]
  note c2 = c [THEN conjunct2, THEN conjunct1, rule_format, OF ok]
  have g1: "handle_user_arguments (small_args ''3'' False False) small_world = Inr [3]"
    by (simp add: small_arguments)
  note g2 = small_get_information and g3 = small_resolution_fails
  have pre: "handle_user_arguments (small_args ''3'' False False) small_world = Inr [3] \<and>
      fst (get_information small_world) = Inr small_info \<and>
      resolve_probes (ipoles small_info) [3] = Inl IndexError"
    by (intro conjI g1 g2 g3)
  note d = command_order [of "small_args ''3'' False False" small_world]
  note d3 = d [THEN conjunct2, THEN conjunct2, rule_format, OF pre]
  show ?thesis
    by (intro conjI ok small_frame_count c [THEN conjunct1] c2 [THEN conjunct1]
        c2 [THEN conjunct2, THEN conjunct1] c2 [THEN conjunct2, THEN conjunct2] tr g1 g2 g3
        d3 [THEN conjunct1] d3 [THEN conjunct2])
qed

text \<open>
  C10. The number of header lines per frame is read off the second line of the snapshot
  file: 2 when that line has six whitespace-separated fields, 1 when it has fewer, and
  also 1 when it has more. It is fixed before streaming: a run that completes has read
  the trajectory in chunks of \<open>natoms + skip_line\<close> rows after skipping \<open>skip_line\<close>
  rows, and has sent the frame commands once per chunk.
\<close>

theorem skip_stride_from_second_line:
  assumes lines: "snapshot_lines w = Inr lines"
    and second: "second_line = fst (readline (snd (readline lines)))"
    and header: "read_header w = Inr (natoms, skip_line)"
  shows "(length (str_split second_line) = 6 \<longrightarrow> skip_line = 2) \<and>
         (length (str_split second_line) < 6 \<longrightarrow> skip_line = 1) \<and>
         (length (str_split second_line) > 6 \<longrightarrow> skip_line = 1) \<and>
         (\<forall>out. fst (main a w) = Inr out \<longrightarrow>
            (\<exists>chunks. read_csv w (natoms + skip_line) skip_line = Inr chunks \<and>
                      commands (snd (main a w)) = protocol (length chunks)))"
proof -
  from header lines second
  have stride: "skip_line = (if length (str_split second_line) = 6 then 2 else 1)"
    by (auto simp: read_header_def err_bind_eq_Inr Let_def split: prod.splits)
  have "\<exists>chunks. read_csv w (natoms + skip_line) skip_line = Inr chunks \<and>
                 commands (snd (main a w)) = protocol (length chunks)"
    if ok: "fst (main a w) = Inr out" for out
  proof -
    from ok obtain probes info idx natoms' skip_line' chunks tables where
      info: "fst (get_information w) = Inr info"
      and ns: "compatibility_check w (natoms_engine info) = Inr (natoms', skip_line')"
      and chunks: "read_csv w (natoms' + skip_line') skip_line' = Inr chunks"
      by (rule main_success)
    from ns header have same: "natoms' = natoms" "skip_line' = skip_line"
      by (auto simp: compatibility_check_def split: if_splits)
    from frame_count_eq [OF info ns] chunks have "frame_count w = length chunks" by simp
    with main_obeys [of a w] ok have "commands (snd (main a w)) = protocol (length chunks)"
      by (simp add: obeys_def)
    with chunks same show ?thesis by auto
  qed
  with stride show ?thesis by simp
qed

theorem skip_stride_from_second_line_witness:
  "snapshot_lines boxed_world =
     Inr [''2 water'', ''10.0 10.0 10.0 90.0 90.0 90.0'', ''1 O 1 2 3 1 2'', ''2 H 4 5 6 2 1''] \<and>
   read_header boxed_world = Inr (2, 2) \<and>
   length (str_split ''10.0 10.0 10.0 90.0 90.0 90.0'') = 6 \<and>
   (2::int) = 2 \<and>
   read_header small_world = Inr (2, 1) \<and>
   fst (main (small_args ''1'' False False) small_world) = Inr small_written \<and>
   (\<exists>chunks. read_csv small_world (2 + 1) 1 = Inr chunks \<and>
      commands (snd (main (small_args ''1'' False False) small_world)) = protocol (length chunks))"
proof -
  have s: "''10.0 10.0 10.0 90.0 90.0 90.0'' =
      fst (readline (snd (readline [''2 water'', ''10.0 10.0 10.0 90.0 90.0 90.0'',
        ''1 O 1 2 3 1 2'', ''2 H 4 5 6 2 1''])))"
    by (simp add: readline_def)
  note b = skip_stride_from_second_line [OF boxed_header(1) s boxed_header(2),
      of "small_args ''1'' False False"]
  note b1 = b [THEN conjunct1, rule_format, OF boxed_header(3)]
  note m = skip_stride_from_second_line [OF small_lines refl small_header,
      of "small_args ''1'' False False"]
  have ok: "fst (main (small_args ''1'' False False) small_world) = Inr small_written"
    by (simp add: small_main)
  note m4 = m [THEN conjunct2, THEN conjunct2, THEN conjunct2, rule_format, OF ok]
  show ?thesis
    by (intro conjI boxed_header b1 small_header ok m4)
qed

end
